theory Spec2Isabelle
  imports Complex_Main
begin

section \<open>JavaScript numbers\<close>

text \<open>
  A JavaScript \<^verbatim>\<open>number\<close> is NaN, one of the two infinities, or a finite value.
  Finite values are idealised as reals: IEEE-754 rounding and the sign of zero
  are not modelled. The operations below are the ones the services use, with
  the propagation of NaN and of the infinities written out.
\<close>

datatype jsnum = NaN | PInf | NInf | Fin real

fun isNaN :: "jsnum \<Rightarrow> bool" where
  "isNaN NaN = True"
| "isNaN _ = False"

fun isFinite :: "jsnum \<Rightarrow> bool" where
  "isFinite (Fin _) = True"
| "isFinite _ = False"

text \<open>\<^verbatim>\<open>a + b\<close>\<close>

fun jadd :: "jsnum \<Rightarrow> jsnum \<Rightarrow> jsnum" where
  "jadd NaN _ = NaN"
| "jadd _ NaN = NaN"
| "jadd PInf NInf = NaN"
| "jadd NInf PInf = NaN"
| "jadd PInf _ = PInf"
| "jadd _ PInf = PInf"
| "jadd NInf _ = NInf"
| "jadd _ NInf = NInf"
| "jadd (Fin a) (Fin b) = Fin (a + b)"

fun jneg :: "jsnum \<Rightarrow> jsnum" where
  "jneg NaN = NaN"
| "jneg PInf = NInf"
| "jneg NInf = PInf"
| "jneg (Fin a) = Fin (- a)"

text \<open>\<^verbatim>\<open>a - b\<close>\<close>

definition jsub :: "jsnum \<Rightarrow> jsnum \<Rightarrow> jsnum" where
  "jsub a b = jadd a (jneg b)"

text \<open>\<^verbatim>\<open>a * c\<close> for a finite constant \<open>c\<close>\<close>

fun jscale :: "jsnum \<Rightarrow> real \<Rightarrow> jsnum" where
  "jscale NaN c = NaN"
| "jscale PInf c = (if c = 0 then NaN else if 0 < c then PInf else NInf)"
| "jscale NInf c = (if c = 0 then NaN else if 0 < c then NInf else PInf)"
| "jscale (Fin a) c = Fin (a * c)"

text \<open>\<^verbatim>\<open>a / b\<close>\<close>

fun jdivide :: "jsnum \<Rightarrow> jsnum \<Rightarrow> jsnum" where
  "jdivide NaN _ = NaN"
| "jdivide _ NaN = NaN"
| "jdivide (Fin a) (Fin b) =
     (if b = 0 then (if a = 0 then NaN else if 0 < a then PInf else NInf) else Fin (a / b))"
| "jdivide (Fin a) _ = Fin 0"
| "jdivide PInf (Fin b) = (if 0 \<le> b then PInf else NInf)"
| "jdivide NInf (Fin b) = (if 0 \<le> b then NInf else PInf)"
| "jdivide _ _ = NaN"

text \<open>\<^verbatim>\<open>a / n\<close> where \<open>n\<close> is an array length or a counter\<close>

definition jdiv :: "jsnum \<Rightarrow> nat \<Rightarrow> jsnum" where
  "jdiv a n = jdivide a (Fin (real n))"

text \<open>\<^verbatim>\<open>Math.pow(a, 2)\<close>\<close>

fun jsquare :: "jsnum \<Rightarrow> jsnum" where
  "jsquare NaN = NaN"
| "jsquare PInf = PInf"
| "jsquare NInf = PInf"
| "jsquare (Fin a) = Fin (a ^ 2)"

text \<open>\<^verbatim>\<open>Math.sqrt(a)\<close>\<close>

fun jsqrt :: "jsnum \<Rightarrow> jsnum" where
  "jsqrt NaN = NaN"
| "jsqrt PInf = PInf"
| "jsqrt NInf = NaN"
| "jsqrt (Fin a) = (if a < 0 then NaN else Fin (sqrt a))"

text \<open>\<^verbatim>\<open>a < b\<close> and \<^verbatim>\<open>a > b\<close>: false as soon as one side is NaN\<close>

fun jlt :: "jsnum \<Rightarrow> jsnum \<Rightarrow> bool" where
  "jlt NaN _ = False"
| "jlt _ NaN = False"
| "jlt PInf _ = False"
| "jlt _ NInf = False"
| "jlt NInf _ = True"
| "jlt _ PInf = True"
| "jlt (Fin a) (Fin b) = (a < b)"

definition jgt :: "jsnum \<Rightarrow> jsnum \<Rightarrow> bool" where
  "jgt a b = jlt b a"

text \<open>\<^verbatim>\<open>Math.min(a, b)\<close> and \<^verbatim>\<open>Math.max(a, b)\<close>: NaN as soon as one argument is NaN\<close>

fun jmin2 :: "jsnum \<Rightarrow> jsnum \<Rightarrow> jsnum" where
  "jmin2 NaN _ = NaN"
| "jmin2 _ NaN = NaN"
| "jmin2 a b = (if jlt b a then b else a)"

fun jmax2 :: "jsnum \<Rightarrow> jsnum \<Rightarrow> jsnum" where
  "jmax2 NaN _ = NaN"
| "jmax2 _ NaN = NaN"
| "jmax2 a b = (if jlt a b then b else a)"

text \<open>\<^verbatim>\<open>Math.min(...xs)\<close> and \<^verbatim>\<open>Math.max(...xs)\<close>; on no argument they are
  \<open>+Infinity\<close> and \<open>-Infinity\<close>\<close>

definition Math_min :: "jsnum list \<Rightarrow> jsnum" where
  "Math_min xs = foldl jmin2 PInf xs"

definition Math_max :: "jsnum list \<Rightarrow> jsnum" where
  "Math_max xs = foldl jmax2 NInf xs"

text \<open>\<^verbatim>\<open>Math.round(a)\<close>: the nearest integer, halves rounded up\<close>

fun Math_round :: "jsnum \<Rightarrow> jsnum" where
  "Math_round (Fin a) = Fin (of_int \<lfloor>a + 1 / 2\<rfloor>)"
| "Math_round a = a"

text \<open>Truthiness of a number in a condition: neither zero nor NaN\<close>

fun truthy :: "jsnum \<Rightarrow> bool" where
  "truthy NaN = False"
| "truthy (Fin a) = (a \<noteq> 0)"
| "truthy _ = True"

section \<open>Data model (analysisService.ts)\<close>

datatype Eye = left_eye | right_eye

record PupilData =
  frame :: int
  eye :: Eye
  diameter :: jsnum

record EyeStats =
  mean :: jsnum
  std :: jsnum
  min_val :: jsnum
  max_val :: jsnum

datatype FatigueLevel = low | moderate | high

section \<open>Statistics and classification (analysisService.ts)\<close>

text \<open>\<^verbatim>\<open>xs.reduce((sum, val) => sum + val, 0)\<close>\<close>

definition reduce_sum :: "jsnum list \<Rightarrow> jsnum" where
  "reduce_sum xs = foldl (\<lambda>sum val. jadd sum val) (Fin 0) xs"

definition calculateEyeStats :: "PupilData list \<Rightarrow> Eye \<Rightarrow> EyeStats" where
  "calculateEyeStats data e =
     (let eyeData = map diameter (filter (\<lambda>d. eye d = e) data) in
      if length eyeData = 0 then \<lparr>mean = Fin 0, std = Fin 0, min_val = Fin 0, max_val = Fin 0\<rparr>
      else
        let mean = jdiv (reduce_sum eyeData) (length eyeData);
            variance = jdiv (foldl (\<lambda>sum val. jadd sum (jsquare (jsub val mean))) (Fin 0) eyeData)
                            (length eyeData);
            std = jsqrt variance;
            min = Math_min eyeData;
            max = Math_max eyeData
        in \<lparr>mean = mean, std = std, min_val = min, max_val = max\<rparr>)"

text \<open>The average that \<^verbatim>\<open>determineFatigueLevel\<close> accumulates before it compares
  it with the thresholds: every eye whose statistics object is present counts.\<close>

definition avgPupilSize_of :: "EyeStats option \<Rightarrow> EyeStats option \<Rightarrow> jsnum" where
  "avgPupilSize_of leftStats rightStats =
     (let (avgPupilSize, count) = (Fin 0, 0::nat);
          (avgPupilSize, count) =
             (case leftStats of Some l \<Rightarrow> (jadd avgPupilSize (mean l), count + 1)
                              | None \<Rightarrow> (avgPupilSize, count));
          (avgPupilSize, count) =
             (case rightStats of Some r \<Rightarrow> (jadd avgPupilSize (mean r), count + 1)
                               | None \<Rightarrow> (avgPupilSize, count))
      in jdiv avgPupilSize count)"

definition determineFatigueLevel :: "EyeStats option \<Rightarrow> EyeStats option \<Rightarrow> FatigueLevel" where
  "determineFatigueLevel leftStats rightStats =
     (if leftStats = None \<and> rightStats = None then moderate
      else
        let avgPupilSize = avgPupilSize_of leftStats rightStats in
        if jlt avgPupilSize (Fin 2.2) then high
        else if jgt avgPupilSize (Fin 2.6) then low
        else moderate)"

section \<open>Strings\<close>

text \<open>
  Report text is a \<open>string\<close>; the characters the parser looks at are ASCII.
  White space is what \<^verbatim>\<open>trim\<close>, \<^verbatim>\<open>parseInt\<close> and \<^verbatim>\<open>parseFloat\<close> strip: space,
  tab, line feed, vertical tab, form feed and carriage return (the non-ASCII
  white space of Unicode is outside the model).
\<close>

definition isWhiteSpace :: "char \<Rightarrow> bool" where
  "isWhiteSpace c \<longleftrightarrow> c \<in> set [CHR '' '', CHR 0x09, CHR 0x0A, CHR 0x0B, CHR 0x0C, CHR 0x0D]"

definition trimStart :: "string \<Rightarrow> string" where
  "trimStart s = dropWhile isWhiteSpace s"

definition trim :: "string \<Rightarrow> string" where
  "trim s = rev (dropWhile isWhiteSpace (rev (dropWhile isWhiteSpace s)))"

definition startsWith :: "string \<Rightarrow> string \<Rightarrow> bool" where
  "startsWith s p \<longleftrightarrow> take (length p) s = p"

text \<open>\<^verbatim>\<open>s.includes(sub)\<close>\<close>

fun str_includes :: "string \<Rightarrow> string \<Rightarrow> bool" where
  "str_includes [] sub = (sub = [])"
| "str_includes (c # s) sub = (startsWith (c # s) sub \<or> str_includes s sub)"

text \<open>\<^verbatim>\<open>s.split(sep)\<close> for a separator of one character: never an empty array\<close>

fun str_split :: "string \<Rightarrow> char \<Rightarrow> string list" where
  "str_split [] sep = [[]]"
| "str_split (c # s) sep =
     (if c = sep then [] # str_split s sep
      else (case str_split s sep of [] \<Rightarrow> [[c]] | p # ps \<Rightarrow> (c # p) # ps))"

definition isDigit :: "char \<Rightarrow> bool" where
  "isDigit c \<longleftrightarrow> c \<in> set ''0123456789''"

text \<open>The value of a digit in radix 10 or 16\<close>

definition radixDigit :: "nat \<Rightarrow> char \<Rightarrow> nat option" where
  "radixDigit R c =
     (case map_of
        [(CHR ''0'', 0), (CHR ''1'', 1), (CHR ''2'', 2), (CHR ''3'', 3), (CHR ''4'', 4),
         (CHR ''5'', 5), (CHR ''6'', 6), (CHR ''7'', 7), (CHR ''8'', 8), (CHR ''9'', 9),
         (CHR ''a'', 10), (CHR ''b'', 11), (CHR ''c'', 12), (CHR ''d'', 13), (CHR ''e'', 14),
         (CHR ''f'', 15),
         (CHR ''A'', 10), (CHR ''B'', 11), (CHR ''C'', 12), (CHR ''D'', 13), (CHR ''E'', 14),
         (CHR ''F'', 15)] c of
        None \<Rightarrow> None
      | Some d \<Rightarrow> if d < R then Some d else None)"

definition digitsValue :: "nat \<Rightarrow> string \<Rightarrow> nat" where
  "digitsValue R Z = foldl (\<lambda>a c. a * R + (case radixDigit R c of None \<Rightarrow> 0 | Some d \<Rightarrow> d)) 0 Z"

text \<open>
  \<^verbatim>\<open>parseInt(str)\<close> with no radix (ECMAScript, parseInt): leading white space is
  skipped, then an optional sign, then an optional \<^verbatim>\<open>0x\<close> prefix that selects
  radix 16, then the longest run of digits of the radix; what follows is
  ignored. \<open>None\<close> is NaN (no digit at all); otherwise the result is the
  exact integer the digits write.
\<close>

definition parseInt :: "string \<Rightarrow> int option" where
  "parseInt str =
     (let S = trimStart str;
          sign = (if S \<noteq> [] \<and> hd S = CHR ''-'' then - 1 else 1 :: int);
          S = (if S \<noteq> [] \<and> (hd S = CHR ''+'' \<or> hd S = CHR ''-'') then tl S else S);
          (R, S) = (if startsWith S ''0x'' \<or> startsWith S ''0X'' then (16, drop 2 S) else (10, S));
          Z = takeWhile (\<lambda>c. radixDigit R c \<noteq> None) S
      in if Z = [] then None else Some (sign * int (digitsValue R Z)))"

definition pow10 :: "int \<Rightarrow> real" where
  "pow10 k = (if 0 \<le> k then 10 ^ nat k else 1 / 10 ^ nat (- k))"

text \<open>The exponent part \<^verbatim>\<open>e[+-]digits\<close> at the head of a string, 0 when there is none\<close>

definition exponentPart :: "string \<Rightarrow> int" where
  "exponentPart S =
     (case S of
        [] \<Rightarrow> 0
      | c # rest \<Rightarrow>
          if c = CHR ''e'' \<or> c = CHR ''E'' then
            (let (sg, ds) =
                   (case rest of
                      [] \<Rightarrow> (1 :: int, rest)
                    | s # r \<Rightarrow> if s = CHR ''+'' then (1, r)
                              else if s = CHR ''-'' then (- 1, r) else (1, rest));
                 D = takeWhile isDigit ds
             in if D = [] then 0 else sg * int (digitsValue 10 D))
          else 0)"

text \<open>
  \<^verbatim>\<open>parseFloat(str)\<close> (ECMAScript, parseFloat): leading white space is skipped
  and the longest prefix that is a decimal literal is read: an optional sign,
  then \<^verbatim>\<open>Infinity\<close>, or digits with an optional fraction and an optional
  exponent; what follows is ignored. The result is NaN when no prefix is a
  literal. The value of a literal is the exact real it writes.
\<close>

definition parseFloat :: "string \<Rightarrow> jsnum" where
  "parseFloat str =
     (let S = trimStart str;
          neg = (S \<noteq> [] \<and> hd S = CHR ''-'');
          S = (if S \<noteq> [] \<and> (hd S = CHR ''+'' \<or> hd S = CHR ''-'') then tl S else S)
      in if startsWith S ''Infinity'' then (if neg then NInf else PInf)
         else
           let I = takeWhile isDigit S;
               S1 = dropWhile isDigit S;
               hasDot = (S1 \<noteq> [] \<and> hd S1 = CHR ''.'');
               F = (if hasDot then takeWhile isDigit (tl S1) else []);
               S2 = (if hasDot then dropWhile isDigit (tl S1) else S1)
           in if I = [] \<and> F = [] then NaN
              else
                let v = real (digitsValue 10 (I @ F)) * pow10 (exponentPart S2 - int (length F))
                in Fin (if neg then - v else v))"

section \<open>Report parser (analysisService.ts, parseResultData)\<close>

text \<open>The eye label of a row, after the variations are folded into the two
  recognised spellings; any other label is left as it is.\<close>

definition normalizeEye :: "string \<Rightarrow> string" where
  "normalizeEye label =
     (if label = ''left_eye'' \<or> label = ''right_eye'' then label
      else if label = ''left'' \<or> label = ''Left'' then ''left_eye''
      else if label = ''right'' \<or> label = ''Right'' then ''right_eye''
      else label)"

text \<open>The body of \<^verbatim>\<open>if (trimmedLine.includes(','))\<close>: the sample pushed for a
  row, if any.\<close>

definition parseRow :: "string \<Rightarrow> PupilData option" where
  "parseRow trimmedLine =
     (let parts = str_split trimmedLine (CHR '','') in
      if length parts \<ge> 3 then
        let frame = parseInt (parts ! 0);
            eye = normalizeEye (trim (parts ! 1));
            diameter = parseFloat (parts ! 2)
        in (case frame of
              None \<Rightarrow> None
            | Some f \<Rightarrow>
                if \<not> isNaN diameter \<and> (eye = ''left_eye'' \<or> eye = ''right_eye'')
                then Some \<lparr>frame = f, eye = (if eye = ''left_eye'' then left_eye else right_eye),
                           diameter = diameter\<rparr>
                else None)
      else None)"

text \<open>The local variables of the loop\<close>

record ParserState =
  st_pupilData :: "PupilData list"
  st_summary :: string
  inSummarySection :: bool
  inCSVSection :: bool

text \<open>One iteration of \<^verbatim>\<open>for (const line of lines)\<close>\<close>

definition parseLine :: "ParserState \<Rightarrow> string \<Rightarrow> ParserState" where
  "parseLine st line =
     (let trimmedLine = trim line in
      if str_includes trimmedLine ''Processed'' \<and> str_includes trimmedLine ''frames'' then
        st\<lparr>inSummarySection := True, st_summary := st_summary st @ trimmedLine @ [CHR 0x0A]\<rparr>
      else if trimmedLine = ''--- CSV Data ---'' then st\<lparr>inCSVSection := True\<rparr>
      else if trimmedLine = ''Frame,Eye_Type,Diameter_mm'' then st
      else if inSummarySection st \<and> \<not> inCSVSection st then
        (if str_includes trimmedLine ''Eye:'' \<or> str_includes trimmedLine ''Mean:'' \<or>
            str_includes trimmedLine ''Std:'' \<or> str_includes trimmedLine ''Min:'' \<or>
            str_includes trimmedLine ''Max:''
         then st\<lparr>st_summary := st_summary st @ trimmedLine @ [CHR 0x0A]\<rparr>
         else st)
      else if str_includes trimmedLine '','' then
        (case parseRow trimmedLine of
           None \<Rightarrow> st
         | Some d \<Rightarrow> st\<lparr>st_pupilData := st_pupilData st @ [d]\<rparr>)
      else st)"

definition initialState :: ParserState where
  "initialState = \<lparr>st_pupilData = [], st_summary = [], inSummarySection = False,
                    inCSVSection = False\<rparr>"

text \<open>\<^verbatim>\<open>parseResultData\<close> returns the object \<^verbatim>\<open>{ pupilData, summary }\<close>, here a pair\<close>

definition parseResultData :: "string \<Rightarrow> PupilData list \<times> string" where
  "parseResultData resultText =
     (let lines = filter (\<lambda>line. trim line \<noteq> []) (str_split resultText (CHR 0x0A));
          st = foldl parseLine initialState lines
      in (st_pupilData st, trim (st_summary st)))"

section \<open>Reaction-time estimates\<close>

text \<open>
  \<^verbatim>\<open>Math.random()\<close> is an input of the model: a real \<open>r\<close> with \<open>0 \<le> r < 1\<close>.
\<close>

text \<open>analysisService.ts, \<^verbatim>\<open>generateMockReactionTime\<close> (exported, floor-clamped)\<close>

definition baseReactionTimes :: "FatigueLevel \<Rightarrow> real" where
  "baseReactionTimes level = (case level of low \<Rightarrow> 280 | moderate \<Rightarrow> 350 | high \<Rightarrow> 450)"

definition generateMockReactionTime :: "FatigueLevel \<Rightarrow> jsnum option \<Rightarrow> real \<Rightarrow> jsnum" where
  "generateMockReactionTime fatigueLevel avgPupilSize r =
     (let baseTime = Fin (baseReactionTimes fatigueLevel);
          baseTime =
            (case avgPupilSize of
               None \<Rightarrow> baseTime
             | Some a \<Rightarrow>
                 if truthy a then
                   (let pupilFactor = jscale (jsub (Fin 3.0) a) 50 in jadd baseTime pupilFactor)
                 else baseTime);
          variation = (r - 0.5) * 40
      in jmax2 (Fin 200) (Math_round (jadd baseTime (Fin variation))))"

text \<open>eyeTestService.ts, \<^verbatim>\<open>generateMockReactionTime\<close> (module-private): the value
  of \<^verbatim>\<open>baseTime\<close> after the \<^verbatim>\<open>switch\<close>, the amount the pupil-size branch adds
  to it, and the function itself.\<close>

definition baseTime_eyeTest :: "FatigueLevel \<Rightarrow> real \<Rightarrow> real" where
  "baseTime_eyeTest fatigueLevel r =
     (case fatigueLevel of
        low \<Rightarrow> 250 + r * 50
      | moderate \<Rightarrow> 250 + (50 + r * 100)
      | high \<Rightarrow> 250 + (150 + r * 150))"

definition pupilAdjustment_eyeTest :: "jsnum option \<Rightarrow> real" where
  "pupilAdjustment_eyeTest avgPupilSize =
     (case avgPupilSize of
        None \<Rightarrow> 0
      | Some a \<Rightarrow>
          if truthy a then
            (if jlt a (Fin 2.0) then 50 else if jgt a (Fin 3.0) then - 25 else 0)
          else 0)"

definition generateMockReactionTime_eyeTest :: "FatigueLevel \<Rightarrow> jsnum option \<Rightarrow> real \<Rightarrow> jsnum" where
  "generateMockReactionTime_eyeTest fatigueLevel avgPupilSize r =
     Math_round (Fin (baseTime_eyeTest fatigueLevel r + pupilAdjustment_eyeTest avgPupilSize))"

section \<open>Other derived metrics (eyeTestService.ts)\<close>

text \<open>The loop of \<^verbatim>\<open>calculateBlinkStats\<close> over adjacent samples\<close>

fun blinkCount_of :: "PupilData list \<Rightarrow> nat" where
  "blinkCount_of (previous # current # rest) =
     (if eye current = eye previous \<and> jgt (jsub (diameter previous) (diameter current)) (Fin 0.5)
      then 1 else 0) + blinkCount_of (current # rest)"
| "blinkCount_of _ = 0"

definition calculateBlinkStats :: "PupilData list \<Rightarrow> jsnum \<Rightarrow> nat \<times> jsnum" where
  "calculateBlinkStats pupilData testDuration =
     (let blinkCount = blinkCount_of pupilData;
          averageBlinkRate = jscale (jdivide (Fin (real blinkCount)) testDuration) 60
      in (blinkCount, averageBlinkRate))"

definition patterns :: "FatigueLevel \<Rightarrow> string list" where
  "patterns level =
     (case level of
        low \<Rightarrow> [''smooth'', ''precise'', ''coordinated'']
      | moderate \<Rightarrow> [''slightly irregular'', ''mostly coordinated'', ''minor tremor'']
      | high \<Rightarrow> [''irregular'', ''uncoordinated'', ''significant tremor'', ''delayed''])"

text \<open>\<^verbatim>\<open>patternOptions[Math.floor(Math.random() * patternOptions.length)]\<close>; an index out
  of range reads \<^verbatim>\<open>undefined\<close>, here \<open>None\<close>.\<close>

definition generateEyeMovementPattern :: "FatigueLevel \<Rightarrow> real \<Rightarrow> string option" where
  "generateEyeMovementPattern fatigueLevel r =
     (let patternOptions = patterns fatigueLevel;
          i = \<lfloor>r * real (length patternOptions)\<rfloor>
      in if 0 \<le> i \<and> nat i < length patternOptions then Some (patternOptions ! nat i) else None)"

definition generateFocusAccuracy :: "FatigueLevel \<Rightarrow> real \<Rightarrow> jsnum" where
  "generateFocusAccuracy fatigueLevel r =
     Math_round (Fin (case fatigueLevel of
                        low \<Rightarrow> 90 + r * 10
                      | moderate \<Rightarrow> 75 + r * 15
                      | high \<Rightarrow> 60 + r * 15))"

section \<open>Records and the store\<close>

record Settings =
  pupilSelection :: string
  tvModel :: string
  blinkDetection :: bool

text \<open>\<^verbatim>\<open>metadata?: any\<close>: an object, here from property names to rendered values\<close>

type_synonym Metadata = "string \<rightharpoonup> string"

record AnalysisData =
  leftEyeStats :: "EyeStats option"
  rightEyeStats :: "EyeStats option"
  summary :: string
  fatigueLevel :: FatigueLevel
  pupilData :: "PupilData list"
  frameCount :: jsnum
  analysisUrl :: "string option"
  metadata :: "Metadata option"
  reactionTime :: "jsnum option"
  settings :: "Settings option"

datatype TestType = pupil_analysis | blink_test | eye_movement | focus_test

text \<open>\<^verbatim>\<open>EyeTestData\<close> has the fields of \<^verbatim>\<open>AnalysisData\<close> and the eye-test ones\<close>

record EyeTestData = AnalysisData +
  testType :: TestType
  testDuration :: jsnum
  blinkCount :: nat
  averageBlinkRate :: jsnum
  eyeMovementPattern :: "string option"
  focusAccuracy :: jsnum
  visualAcuity :: jsnum
  contrastSensitivity :: jsnum

text \<open>
  The store (lib/firebase): the two collections \<^verbatim>\<open>users/{uid}/analyses/{timestamp}\<close>
  and \<^verbatim>\<open>eye-test/{uid}/{timestamp}\<close>, keyed by the client clock \<^verbatim>\<open>Date.now()\<close>.
  The stamp fields that the helpers add to each record (\<^verbatim>\<open>timestamp\<close>, \<^verbatim>\<open>date\<close>,
  \<^verbatim>\<open>uid\<close>, \<^verbatim>\<open>id\<close>) are not modelled beyond the key. Each call of a helper reads
  the clock and either writes or fails with the message of the error that
  \<^verbatim>\<open>set\<close> threw: both are inputs of the model.
\<close>

record Store =
  analyses :: "nat \<rightharpoonup> AnalysisData"
  eyeTests :: "nat \<rightharpoonup> EyeTestData"

record SaveEnv =
  now :: nat
  writeError :: "string option"

definition saveAnalysisResult :: "SaveEnv \<Rightarrow> Store \<Rightarrow> AnalysisData \<Rightarrow> (string + nat) \<times> Store" where
  "saveAnalysisResult env store analysisData =
     (case writeError env of
        Some msg \<Rightarrow> (Inl msg, store)
      | None \<Rightarrow> (Inr (now env), store\<lparr>analyses := (analyses store)(now env \<mapsto> analysisData)\<rparr>))"

definition saveEyeTestResult :: "SaveEnv \<Rightarrow> Store \<Rightarrow> EyeTestData \<Rightarrow> (string + nat) \<times> Store" where
  "saveEyeTestResult env store eyeTestData =
     (case writeError env of
        Some msg \<Rightarrow> (Inl msg, store)
      | None \<Rightarrow> (Inr (now env), store\<lparr>eyeTests := (eyeTests store)(now env \<mapsto> eyeTestData)\<rparr>))"

section \<open>Record assembly (processAndSaveAnalysis, processEyeTestResult)\<close>

text \<open>The average pupil size handed to the reaction-time estimate: only an eye
  with \<^verbatim>\<open>mean > 0\<close> counts, and \<^verbatim>\<open>undefined\<close> when none does.\<close>

definition eligibleAvgPupilSize :: "EyeStats \<Rightarrow> EyeStats \<Rightarrow> jsnum option" where
  "eligibleAvgPupilSize leftStats rightStats =
     (let (avgPupilSize, count) = (Fin 0, 0::nat);
          (avgPupilSize, count) =
             (if jgt (mean leftStats) (Fin 0) then (jadd avgPupilSize (mean leftStats), count + 1)
              else (avgPupilSize, count));
          (avgPupilSize, count) =
             (if jgt (mean rightStats) (Fin 0) then (jadd avgPupilSize (mean rightStats), count + 1)
              else (avgPupilSize, count))
      in if count > 0 then Some (jdiv avgPupilSize count) else None)"

text \<open>\<^verbatim>\<open>Math.max(...pupilData.map(d => d.frame)) + 1\<close>\<close>

definition frameCount_of :: "PupilData list \<Rightarrow> jsnum" where
  "frameCount_of samples = jadd (Math_max (map (\<lambda>d. Fin (real_of_int (frame d))) samples)) (Fin 1)"

text \<open>The four random draws of \<^verbatim>\<open>processEyeTestResult\<close>, in the order it makes them:
  reaction time, eye-movement pattern, focus accuracy, contrast sensitivity.\<close>

type_synonym Draws = "real \<times> real \<times> real \<times> real"

definition processEyeTestResult ::
  "string \<Rightarrow> string option \<Rightarrow> Metadata option \<Rightarrow> TestType \<Rightarrow> jsnum \<Rightarrow> Settings option \<Rightarrow>
   Draws \<Rightarrow> SaveEnv \<Rightarrow> Store \<Rightarrow> (string + EyeTestData) \<times> Store" where
  "processEyeTestResult resultText url meta tType duration sett draws env store =
     (let (pupilData, summary) = parseResultData resultText;
          (r1, r2, r3, r4) = draws in
      if length pupilData = 0 then (Inl ''No valid pupil data found in results'', store)
      else
        let leftEyeStats = calculateEyeStats pupilData left_eye;
            rightEyeStats = calculateEyeStats pupilData right_eye;
            fatigueLevel = determineFatigueLevel (Some leftEyeStats) (Some rightEyeStats);
            avgPupilSize = eligibleAvgPupilSize leftEyeStats rightEyeStats;
            reactionTime = generateMockReactionTime_eyeTest fatigueLevel avgPupilSize r1;
            (blinkCount, averageBlinkRate) = calculateBlinkStats pupilData duration;
            eyeMovementPattern = generateEyeMovementPattern fatigueLevel r2;
            focusAccuracy = generateFocusAccuracy fatigueLevel r3;
            visualAcuity = (case fatigueLevel of low \<Rightarrow> Fin (20 / 20) | moderate \<Rightarrow> Fin (20 / 25)
                            | high \<Rightarrow> Fin (20 / 30));
            contrastSensitivity = (case fatigueLevel of low \<Rightarrow> 95 + r4 * 5 | moderate \<Rightarrow> 80 + r4 * 15
                                   | high \<Rightarrow> 65 + r4 * 15);
            eyeTestData =
              \<lparr>leftEyeStats = (if jgt (mean leftEyeStats) (Fin 0) then Some leftEyeStats else None),
               rightEyeStats = (if jgt (mean rightEyeStats) (Fin 0) then Some rightEyeStats else None),
               summary = summary,
               fatigueLevel = fatigueLevel,
               pupilData = pupilData,
               frameCount = frameCount_of pupilData,
               analysisUrl = url,
               metadata = meta,
               reactionTime = Some reactionTime,
               settings = sett,
               testType = tType,
               testDuration = duration,
               blinkCount = blinkCount,
               averageBlinkRate = jdiv (Math_round (jscale averageBlinkRate 10)) 10,
               eyeMovementPattern = eyeMovementPattern,
               focusAccuracy = focusAccuracy,
               visualAcuity = visualAcuity,
               contrastSensitivity = jdiv (Math_round (Fin (contrastSensitivity * 10))) 10\<rparr>;
            (saveResult, store') = saveEyeTestResult env store eyeTestData
        in (case saveResult of
              Inr _ \<Rightarrow> (Inr eyeTestData, store')
            | Inl err \<Rightarrow> (Inl err, store')))"

text \<open>
  \<^verbatim>\<open>processAndSaveAnalysis\<close>: one random draw of its own, one call of each store
  helper. A success carries the record and \<^verbatim>\<open>eyeTestSaved\<close>. On a string input
  no step of either body throws, so the \<^verbatim>\<open>catch\<close> branches are not reached (the
  argument limit of the spread call on very long arrays is outside the model).
\<close>

definition processAndSaveAnalysis ::
  "string \<Rightarrow> string option \<Rightarrow> Metadata option \<Rightarrow> Settings option \<Rightarrow>
   real \<Rightarrow> Draws \<Rightarrow> SaveEnv \<Rightarrow> SaveEnv \<Rightarrow> Store \<Rightarrow> (string + AnalysisData \<times> bool) \<times> Store" where
  "processAndSaveAnalysis resultText url meta sett r draws env envEyeTest store =
     (let (pupilData, summary) = parseResultData resultText in
      if length pupilData = 0 then (Inl ''No valid pupil data found in results'', store)
      else
        let leftEyeStats = calculateEyeStats pupilData left_eye;
            rightEyeStats = calculateEyeStats pupilData right_eye;
            fatigueLevel = determineFatigueLevel (Some leftEyeStats) (Some rightEyeStats);
            avgPupilSize = eligibleAvgPupilSize leftEyeStats rightEyeStats;
            reactionTime = generateMockReactionTime fatigueLevel avgPupilSize r;
            analysisData =
              \<lparr>leftEyeStats = (if jgt (mean leftEyeStats) (Fin 0) then Some leftEyeStats else None),
               rightEyeStats = (if jgt (mean rightEyeStats) (Fin 0) then Some rightEyeStats else None),
               summary = summary,
               fatigueLevel = fatigueLevel,
               pupilData = pupilData,
               frameCount = frameCount_of pupilData,
               analysisUrl = url,
               metadata = meta,
               reactionTime = Some reactionTime,
               settings = sett\<rparr>;
            (saveResult, store1) = saveAnalysisResult env store analysisData;
            (eyeTestResult, store2) =
               processEyeTestResult resultText url
                 (Some ((case meta of None \<Rightarrow> Map.empty | Some m \<Rightarrow> m)
                          (''source'' \<mapsto> ''analysis_service'', ''originalAnalysis'' \<mapsto> ''true'')))
                 pupil_analysis (Fin 30) sett draws envEyeTest store1;
            eyeTestSaved = (case eyeTestResult of Inr _ \<Rightarrow> True | Inl _ \<Rightarrow> False)
        in (case saveResult of
              Inr _ \<Rightarrow> (Inr (analysisData, eyeTestSaved), store2)
            | Inl err \<Rightarrow> (Inl err, store2)))"

section \<open>Trend analysis (CognitiveMetricsChart.tsx, generateConclusions)\<close>

record DataPoint =
  time :: string
  pupilDiameter :: jsnum
  dp_reactionTime :: "jsnum option"

datatype Trend = insufficient | declining | improving | variable | stable

text \<open>The object \<^verbatim>\<open>generateConclusions\<close> returns (its \<^verbatim>\<open>icon\<close>, an emoji, is left out)\<close>

record Conclusions =
  trend :: Trend
  message :: string
  recommendation :: string
  color :: "string option"

text \<open>\<^verbatim>\<open>Math.ceil(n / 2)\<close> for an array length \<open>n\<close>\<close>

definition ceil_half :: "nat \<Rightarrow> nat" where
  "ceil_half n = nat \<lceil>real n / 2\<rceil>"

definition generateConclusions :: "DataPoint list \<Rightarrow> Conclusions" where
  "generateConclusions data =
     (if length data < 2 then
        \<lparr>trend = insufficient,
         message = ''Need more measurements to identify trends'',
         recommendation = ''Take additional measurements throughout the day'',
         color = None\<rparr>
      else
        let pupilSizes = map pupilDiameter data;
            firstHalf = take (ceil_half (length pupilSizes)) pupilSizes;
            secondHalf = drop (ceil_half (length pupilSizes)) pupilSizes;
            firstHalfAvg = jdiv (reduce_sum firstHalf) (length firstHalf);
            secondHalfAvg = jdiv (reduce_sum secondHalf) (length secondHalf);
            pupilTrend = jsub secondHalfAvg firstHalfAvg;
            pupilVariability =
              jsqrt (jdiv (foldl (\<lambda>sum val. jadd sum
                                     (jsquare (jsub val (jdiv (reduce_sum pupilSizes) (length pupilSizes)))))
                                 (Fin 0) pupilSizes)
                          (length pupilSizes))
        in if jlt pupilTrend (Fin (- 0.1)) then
             \<lparr>trend = declining,
              message = ''Pupil diameter decreasing throughout the day - indicates increasing cognitive fatigue'',
              recommendation = ''Consider taking breaks, reducing cognitive load, or checking sleep quality'',
              color = Some ''#EF4444''\<rparr>
           else if jgt pupilTrend (Fin 0.1) then
             \<lparr>trend = improving,
              message = ''Pupil diameter increasing - cognitive alertness improving throughout the day'',
              recommendation = ''Great! Your cognitive state is improving. Maintain current activities'',
              color = Some ''#10B981''\<rparr>
           else if jgt pupilVariability (Fin 0.15) then
             \<lparr>trend = variable,
              message = ''High variability in pupil diameter - inconsistent cognitive state'',
              recommendation = ''Try to maintain consistent work patterns and minimize distractions'',
              color = Some ''#F59E0B''\<rparr>
           else
             \<lparr>trend = stable,
              message = ''Stable pupil diameter - consistent cognitive performance'',
              recommendation = ''Excellent cognitive stability. Continue your current routine'',
              color = Some ''#3B82F6''\<rparr>)"

section \<open>The bundled sample report (analysisService.ts, loadSampleAnalysisData)\<close>

text \<open>Lines joined by line feeds, as a template literal writes them\<close>

fun join_lines :: "string list \<Rightarrow> string" where
  "join_lines [] = []"
| "join_lines [l] = l"
| "join_lines (l # ls) = l @ CHR 0x0A # join_lines ls"

definition sampleResultText :: string where
  "sampleResultText = join_lines
     [''37,left_eye,2.300457715988159'',
      ''38,left_eye,2.3212697505950928'',
      ''39,left_eye,2.3268024921417236'',
      ''40,left_eye,2.325519323348999'',
      ''41,left_eye,2.3016486167907715'',
      ''42,left_eye,2.2915494441986084'',
      ''43,left_eye,2.307129144668579'',
      ''44,left_eye,2.3017423152923584'',
      ''45,left_eye,2.306887149810791'',
      ''46,left_eye,2.287179708480835'',
      ''47,left_eye,2.2922284603118896'',
      ''48,left_eye,2.2548787593841553'',
      ''49,left_eye,2.260747194290161'',
      ''50,left_eye,2.299243927001953'',
      ''0,right_eye,2.2755913734436035'',
      ''1,right_eye,2.2151496410369873'',
      ''2,right_eye,2.203460454940796'',
      ''3,right_eye,2.2932863235473633'',
      ''4,right_eye,2.2873587608337402'',
      ''5,right_eye,2.322633981704712'',
      ''6,right_eye,2.327956199645996'',
      ''7,right_eye,2.310279607772827'',
      ''8,right_eye,2.3053176403045654'',
      ''9,right_eye,2.301894187927246'',
      ''10,right_eye,2.328364610671997'',
      ''11,right_eye,2.358999490737915'',
      ''12,right_eye,2.3684120178222656'',
      ''13,right_eye,2.3732266426086426'',
      ''14,right_eye,2.3003456592559814'',
      '''',
      ''Processed 255 frames'',
      '''',
      ''Left Eye:'',
      ''  Mean: 2.40 mm'',
      ''  Std: 0.11 mm'',
      ''  Min: 2.20 mm'',
      ''  Max: 2.71 mm'',
      '''',
      ''Right Eye:'',
      ''  Mean: 2.28 mm'',
      ''  Std: 0.10 mm'',
      ''  Min: 2.09 mm'',
      ''  Max: 2.53 mm'',
      '''',
      ''--- CSV Data ---'',
      ''Frame,Eye_Type,Diameter_mm'',
      ''0,left_eye,2.3495993614196777'',
      ''1,left_eye,2.3160369396209717'',
      ''2,left_eye,2.31215500831604'',
      ''3,left_eye,2.2922122478485107'',
      ''4,left_eye,2.3858745098114014'',
      ''5,left_eye,2.389317035675049'']"

text \<open>\<^verbatim>\<open>loadSampleAnalysisData\<close>; the time stamp written into the metadata is an input\<close>

definition loadSampleAnalysisData ::
  "string \<Rightarrow> real \<Rightarrow> Draws \<Rightarrow> SaveEnv \<Rightarrow> SaveEnv \<Rightarrow> Store \<Rightarrow> (string + AnalysisData \<times> bool) \<times> Store" where
  "loadSampleAnalysisData isoTime r draws env envEyeTest store =
     processAndSaveAnalysis sampleResultText None
       (Some [''source'' \<mapsto> ''sample_data'', ''timestamp'' \<mapsto> isoTime,
              ''note'' \<mapsto> ''Sample cognitive fatigue analysis with mock reaction time data''])
       (Some \<lparr>pupilSelection = ''both'', tvModel = ''ResNet18'', blinkDetection = True\<rparr>)
       r draws env envEyeTest store"

section \<open>Reference notions for the statements\<close>

text \<open>The real value of a finite number\<close>

fun the_real :: "jsnum \<Rightarrow> real" where
  "the_real (Fin a) = a"
| "the_real _ = 0"

text \<open>Arithmetic mean and population variance (division by \<open>N\<close>, not by \<open>N - 1\<close>)
  of a list of reals\<close>

definition arithmetic_mean :: "real list \<Rightarrow> real" where
  "arithmetic_mean xs = sum_list xs / real (length xs)"

definition population_variance :: "real list \<Rightarrow> real" where
  "population_variance xs = (\<Sum>x\<leftarrow>xs. (x - arithmetic_mean xs) ^ 2) / real (length xs)"

text \<open>The statistics of one eye as the specification words them\<close>

definition stats_spec :: "real list \<Rightarrow> EyeStats" where
  "stats_spec xs =
     (if xs = [] then \<lparr>mean = Fin 0, std = Fin 0, min_val = Fin 0, max_val = Fin 0\<rparr>
      else \<lparr>mean = Fin (arithmetic_mean xs), std = Fin (sqrt (population_variance xs)),
             min_val = Fin (Min (set xs)), max_val = Fin (Max (set xs))\<rparr>)"

text \<open>The trend of a daily series as the specification words it: the first
  half is the \<open>\<lceil>n / 2\<rceil>\<close> earliest points, the first matching rule wins\<close>

definition trend_spec :: "real list \<Rightarrow> Trend" where
  "trend_spec xs =
     (if length xs < 2 then insufficient
      else
        let k = (length xs + 1) div 2;
            delta = arithmetic_mean (drop k xs) - arithmetic_mean (take k xs);
            variability = sqrt (population_variance xs)
        in if delta < - 0.1 then declining
           else if delta > 0.1 then improving
           else if variability > 0.15 then variable
           else stable)"

text \<open>A statistics object whose mean is \<open>a\<close>, for the threshold examples\<close>

definition stats_with_mean :: "real \<Rightarrow> EyeStats" where
  "stats_with_mean a = \<lparr>mean = Fin a, std = Fin 0, min_val = Fin a, max_val = Fin a\<rparr>"

text \<open>
  The classifier as the specification words it. The eligible means are those of
  the eyes whose statistics are present and whose mean is positive; the
  eligible average is their arithmetic mean, absent when no eye is eligible. No
  eligible eye gives \<open>moderate\<close>; otherwise an average below 2.2 gives \<open>high\<close>,
  one above 2.6 gives \<open>low\<close>, and anything else gives \<open>moderate\<close>.
\<close>

definition eligibleMeans :: "EyeStats option \<Rightarrow> EyeStats option \<Rightarrow> jsnum list" where
  "eligibleMeans leftStats rightStats =
     concat (map (\<lambda>stats. case stats of
                            None \<Rightarrow> []
                          | Some s \<Rightarrow> if jgt (mean s) (Fin 0) then [mean s] else [])
                 [leftStats, rightStats])"

definition eligibleAverage :: "EyeStats option \<Rightarrow> EyeStats option \<Rightarrow> jsnum option" where
  "eligibleAverage leftStats rightStats =
     (let ms = eligibleMeans leftStats rightStats in
      if ms = [] then None else Some (jdiv (reduce_sum ms) (length ms)))"

definition classify_spec :: "EyeStats option \<Rightarrow> EyeStats option \<Rightarrow> FatigueLevel" where
  "classify_spec leftStats rightStats =
     (case eligibleAverage leftStats rightStats of
        None \<Rightarrow> moderate
      | Some avg \<Rightarrow>
          if jlt avg (Fin 2.2) then high
          else if jgt avg (Fin 2.6) then low
          else moderate)"

text \<open>The classifier as the repository's own check script writes it
  (test-sample-data.js, \<^verbatim>\<open>determineFatigueLevel\<close>): an eye counts only when its
  statistics are present and its mean is positive, and no eligible eye gives
  \<^verbatim>\<open>moderate\<close>.\<close>

definition determineFatigueLevel_testScript :: "EyeStats option \<Rightarrow> EyeStats option \<Rightarrow> FatigueLevel" where
  "determineFatigueLevel_testScript leftStats rightStats =
     (if leftStats = None \<and> rightStats = None then moderate
      else
        let (avgPupilSize, count) = (Fin 0, 0::nat);
            (avgPupilSize, count) =
               (case leftStats of
                  Some l \<Rightarrow> if jgt (mean l) (Fin 0) then (jadd avgPupilSize (mean l), count + 1)
                            else (avgPupilSize, count)
                | None \<Rightarrow> (avgPupilSize, count));
            (avgPupilSize, count) =
               (case rightStats of
                  Some r \<Rightarrow> if jgt (mean r) (Fin 0) then (jadd avgPupilSize (mean r), count + 1)
                            else (avgPupilSize, count)
                | None \<Rightarrow> (avgPupilSize, count))
        in if count = 0 then moderate
           else
             let avgPupilSize = jdiv avgPupilSize count in
             if jlt avgPupilSize (Fin 2.2) then high
             else if jgt avgPupilSize (Fin 2.6) then low
             else moderate)"

text \<open>A store with no record, and a store helper environment whose write succeeds\<close>

definition emptyStore :: Store where
  "emptyStore = \<lparr>analyses = Map.empty, eyeTests = Map.empty\<rparr>"

definition writeOk :: "nat \<Rightarrow> SaveEnv" where
  "writeOk t = \<lparr>now = t, writeError = None\<rparr>"

section \<open>Well-formed rows\<close>

text \<open>
  A well-formed \<^verbatim>\<open>frame,eye,diameter\<close> line: the frame is a non-empty run of
  decimal digits, the eye label one of the six spellings the parser knows, the
  diameter a non-empty run of digits with an optional fraction.
\<close>

record RowFields =
  frameField :: string
  eyeField :: string
  diameterInt :: string
  diameterFrac :: string

definition eyeLabels :: "string list" where
  "eyeLabels = [''left_eye'', ''right_eye'', ''left'', ''Left'', ''right'', ''Right'']"

definition wellFormedRow :: "RowFields \<Rightarrow> bool" where
  "wellFormedRow r \<longleftrightarrow>
     frameField r \<noteq> [] \<and> list_all isDigit (frameField r) \<and>
     eyeField r \<in> set eyeLabels \<and>
     diameterInt r \<noteq> [] \<and> list_all isDigit (diameterInt r) \<and>
     list_all isDigit (diameterFrac r)"

definition rowLine :: "RowFields \<Rightarrow> string" where
  "rowLine r =
     frameField r @ '','' @ eyeField r @ '','' @ diameterInt r @
     (if diameterFrac r = [] then [] else ''.'' @ diameterFrac r)"

text \<open>The number a run of decimal digits writes\<close>

fun decimalValue :: "string \<Rightarrow> nat" where
  "decimalValue [] = 0"
| "decimalValue (c # cs) = (of_char c - 48) * 10 ^ length cs + decimalValue cs"

text \<open>The sample a well-formed row stands for\<close>

definition rowSample :: "RowFields \<Rightarrow> PupilData" where
  "rowSample r =
     \<lparr>frame = int (decimalValue (frameField r)),
      eye = (if eyeField r \<in> {''left_eye'', ''left'', ''Left''} then left_eye else right_eye),
      diameter = Fin (real (decimalValue (diameterInt r)) +
                      real (decimalValue (diameterFrac r)) / 10 ^ length (diameterFrac r))\<rparr>"

text \<open>A line that opens no section and whose fields fail one of the three
  checks of a data row (or that has fewer than three fields)\<close>

definition rejectedLine :: "string \<Rightarrow> bool" where
  "rejectedLine line \<longleftrightarrow>
     (let t = trim line; parts = str_split t (CHR '','') in
      \<not> (str_includes t ''Processed'' \<and> str_includes t ''frames'') \<and>
      t \<noteq> ''--- CSV Data ---'' \<and>
      (length parts < 3 \<or>
       parseInt (parts ! 0) = None \<or>
       isNaN (parseFloat (parts ! 2)) \<or>
       normalizeEye (trim (parts ! 1)) \<notin> {''left_eye'', ''right_eye''}))"

text \<open>Two parser states that agree on everything but the summary buffer\<close>

definition sameSamples :: "ParserState \<Rightarrow> ParserState \<Rightarrow> bool" where
  "sameSamples a b \<longleftrightarrow>
     st_pupilData a = st_pupilData b \<and> inSummarySection a = inSummarySection b \<and>
     inCSVSection a = inCSVSection b"

text \<open>The label the parser compares with, for each eye\<close>

definition eyeName :: "Eye \<Rightarrow> string" where
  "eyeName e = (case e of left_eye \<Rightarrow> ''left_eye'' | right_eye \<Rightarrow> ''right_eye'')"

text \<open>The sample report in parts: the rows before the summary block, the
  lines from the first blank line to the CSV header, the rows after it\<close>

definition sampleRowsBefore :: "RowFields list" where
  "sampleRowsBefore =
     [\<lparr>frameField = ''37'', eyeField = ''left_eye'', diameterInt = ''2'', diameterFrac = ''300457715988159''\<rparr>,
      \<lparr>frameField = ''38'', eyeField = ''left_eye'', diameterInt = ''2'', diameterFrac = ''3212697505950928''\<rparr>,
      \<lparr>frameField = ''39'', eyeField = ''left_eye'', diameterInt = ''2'', diameterFrac = ''3268024921417236''\<rparr>,
      \<lparr>frameField = ''40'', eyeField = ''left_eye'', diameterInt = ''2'', diameterFrac = ''325519323348999''\<rparr>,
      \<lparr>frameField = ''41'', eyeField = ''left_eye'', diameterInt = ''2'', diameterFrac = ''3016486167907715''\<rparr>,
      \<lparr>frameField = ''42'', eyeField = ''left_eye'', diameterInt = ''2'', diameterFrac = ''2915494441986084''\<rparr>,
      \<lparr>frameField = ''43'', eyeField = ''left_eye'', diameterInt = ''2'', diameterFrac = ''307129144668579''\<rparr>,
      \<lparr>frameField = ''44'', eyeField = ''left_eye'', diameterInt = ''2'', diameterFrac = ''3017423152923584''\<rparr>,
      \<lparr>frameField = ''45'', eyeField = ''left_eye'', diameterInt = ''2'', diameterFrac = ''306887149810791''\<rparr>,
      \<lparr>frameField = ''46'', eyeField = ''left_eye'', diameterInt = ''2'', diameterFrac = ''287179708480835''\<rparr>,
      \<lparr>frameField = ''47'', eyeField = ''left_eye'', diameterInt = ''2'', diameterFrac = ''2922284603118896''\<rparr>,
      \<lparr>frameField = ''48'', eyeField = ''left_eye'', diameterInt = ''2'', diameterFrac = ''2548787593841553''\<rparr>,
      \<lparr>frameField = ''49'', eyeField = ''left_eye'', diameterInt = ''2'', diameterFrac = ''260747194290161''\<rparr>,
      \<lparr>frameField = ''50'', eyeField = ''left_eye'', diameterInt = ''2'', diameterFrac = ''299243927001953''\<rparr>,
      \<lparr>frameField = ''0'', eyeField = ''right_eye'', diameterInt = ''2'', diameterFrac = ''2755913734436035''\<rparr>,
      \<lparr>frameField = ''1'', eyeField = ''right_eye'', diameterInt = ''2'', diameterFrac = ''2151496410369873''\<rparr>,
      \<lparr>frameField = ''2'', eyeField = ''right_eye'', diameterInt = ''2'', diameterFrac = ''203460454940796''\<rparr>,
      \<lparr>frameField = ''3'', eyeField = ''right_eye'', diameterInt = ''2'', diameterFrac = ''2932863235473633''\<rparr>,
      \<lparr>frameField = ''4'', eyeField = ''right_eye'', diameterInt = ''2'', diameterFrac = ''2873587608337402''\<rparr>,
      \<lparr>frameField = ''5'', eyeField = ''right_eye'', diameterInt = ''2'', diameterFrac = ''322633981704712''\<rparr>,
      \<lparr>frameField = ''6'', eyeField = ''right_eye'', diameterInt = ''2'', diameterFrac = ''327956199645996''\<rparr>,
      \<lparr>frameField = ''7'', eyeField = ''right_eye'', diameterInt = ''2'', diameterFrac = ''310279607772827''\<rparr>,
      \<lparr>frameField = ''8'', eyeField = ''right_eye'', diameterInt = ''2'', diameterFrac = ''3053176403045654''\<rparr>,
      \<lparr>frameField = ''9'', eyeField = ''right_eye'', diameterInt = ''2'', diameterFrac = ''301894187927246''\<rparr>,
      \<lparr>frameField = ''10'', eyeField = ''right_eye'', diameterInt = ''2'', diameterFrac = ''328364610671997''\<rparr>,
      \<lparr>frameField = ''11'', eyeField = ''right_eye'', diameterInt = ''2'', diameterFrac = ''358999490737915''\<rparr>,
      \<lparr>frameField = ''12'', eyeField = ''right_eye'', diameterInt = ''2'', diameterFrac = ''3684120178222656''\<rparr>,
      \<lparr>frameField = ''13'', eyeField = ''right_eye'', diameterInt = ''2'', diameterFrac = ''3732266426086426''\<rparr>,
      \<lparr>frameField = ''14'', eyeField = ''right_eye'', diameterInt = ''2'', diameterFrac = ''3003456592559814''\<rparr>]"

definition sampleMiddleLines :: "string list" where
  "sampleMiddleLines =
     ['''',
      ''Processed 255 frames'',
      '''',
      ''Left Eye:'',
      ''  Mean: 2.40 mm'',
      ''  Std: 0.11 mm'',
      ''  Min: 2.20 mm'',
      ''  Max: 2.71 mm'',
      '''',
      ''Right Eye:'',
      ''  Mean: 2.28 mm'',
      ''  Std: 0.10 mm'',
      ''  Min: 2.09 mm'',
      ''  Max: 2.53 mm'',
      '''',
      ''--- CSV Data ---'',
      ''Frame,Eye_Type,Diameter_mm'']"

definition sampleRowsAfter :: "RowFields list" where
  "sampleRowsAfter =
     [\<lparr>frameField = ''0'', eyeField = ''left_eye'', diameterInt = ''2'', diameterFrac = ''3495993614196777''\<rparr>,
      \<lparr>frameField = ''1'', eyeField = ''left_eye'', diameterInt = ''2'', diameterFrac = ''3160369396209717''\<rparr>,
      \<lparr>frameField = ''2'', eyeField = ''left_eye'', diameterInt = ''2'', diameterFrac = ''31215500831604''\<rparr>,
      \<lparr>frameField = ''3'', eyeField = ''left_eye'', diameterInt = ''2'', diameterFrac = ''2922122478485107''\<rparr>,
      \<lparr>frameField = ''4'', eyeField = ''left_eye'', diameterInt = ''2'', diameterFrac = ''3858745098114014''\<rparr>,
      \<lparr>frameField = ''5'', eyeField = ''left_eye'', diameterInt = ''2'', diameterFrac = ''389317035675049''\<rparr>]"


section \<open>Arithmetic on finite numbers\<close>

lemma jdiv_Fin:
  "jdiv (Fin a) n =
     (if n = 0 then (if a = 0 then NaN else if 0 < a then PInf else NInf) else Fin (a / real n))"
  by (simp add: jdiv_def)

lemma foldl_jadd_Fin:
  "foldl (\<lambda>sum val. jadd sum val) (Fin a) (map Fin xs) = Fin (a + sum_list xs)"
  by (induction xs arbitrary: a) (simp_all add: add.assoc)

lemma foldl_sqdev_Fin:
  "foldl (\<lambda>sum val. jadd sum (jsquare (jsub val (Fin m)))) (Fin a) (map Fin xs)
     = Fin (a + (\<Sum>x\<leftarrow>xs. (x - m) ^ 2))"
  by (induction xs arbitrary: a) (simp_all add: jsub_def add.assoc)

lemma mean_Fin:
  "xs \<noteq> [] \<Longrightarrow> jdiv (reduce_sum (map Fin xs)) (length xs) = Fin (arithmetic_mean xs)"
  by (simp add: reduce_sum_def foldl_jadd_Fin arithmetic_mean_def jdiv_Fin)

lemma variance_Fin:
  "xs \<noteq> [] \<Longrightarrow>
   jdiv (foldl (\<lambda>sum val. jadd sum (jsquare (jsub val (Fin (arithmetic_mean xs))))) (Fin 0) (map Fin xs))
        (length xs) = Fin (population_variance xs)"
  by (simp add: foldl_sqdev_Fin population_variance_def jdiv_Fin)

lemma population_variance_nonneg: "0 \<le> population_variance xs"
  unfolding population_variance_def
  by (intro divide_nonneg_nonneg sum_list_nonneg) auto

lemma mean_of_Fin:
  "ys = map Fin xs \<Longrightarrow> xs \<noteq> [] \<Longrightarrow> jdiv (reduce_sum ys) (length ys) = Fin (arithmetic_mean xs)"
  by (simp add: mean_Fin)

lemma std_of_Fin:
  assumes "ys = map Fin xs" "xs \<noteq> []"
  shows "jsqrt (jdiv (foldl (\<lambda>sum val. jadd sum (jsquare (jsub val (jdiv (reduce_sum ys) (length ys)))))
                 (Fin 0) ys) (length ys)) = Fin (sqrt (population_variance xs))"
  using assms population_variance_nonneg [of xs] by (simp add: mean_Fin variance_Fin not_less)

lemma foldl_jmin2_Fin:
  "foldl jmin2 (Fin a) (map Fin xs) = Fin (Min (insert a (set xs)))"
proof (induction xs arbitrary: a)
  case Nil
  show ?case by simp
next
  case (Cons x xs)
  have "jmin2 (Fin a) (Fin x) = Fin (min a x)" by (simp add: min_def)
  moreover have "Min (insert (min a x) (set xs)) = Min (insert a (insert x (set xs)))"
    by (cases "set xs = {}") (simp_all add: min.assoc)
  ultimately show ?case using Cons.IH [of "min a x"] by simp
qed

lemma foldl_jmax2_Fin:
  "foldl jmax2 (Fin a) (map Fin xs) = Fin (Max (insert a (set xs)))"
proof (induction xs arbitrary: a)
  case Nil
  show ?case by simp
next
  case (Cons x xs)
  have "jmax2 (Fin a) (Fin x) = Fin (max a x)" by (simp add: max_def)
  moreover have "Max (insert (max a x) (set xs)) = Max (insert a (insert x (set xs)))"
    by (cases "set xs = {}") (simp_all add: max.assoc)
  ultimately show ?case using Cons.IH [of "max a x"] by simp
qed

lemma Math_min_Fin: "xs \<noteq> [] \<Longrightarrow> Math_min (map Fin xs) = Fin (Min (set xs))"
  by (cases xs) (simp_all add: Math_min_def foldl_jmin2_Fin)

lemma Math_max_Fin: "xs \<noteq> [] \<Longrightarrow> Math_max (map Fin xs) = Fin (Max (set xs))"
  by (cases xs) (simp_all add: Math_max_def foldl_jmax2_Fin)

lemma finite_diameters_map:
  "\<forall>d\<in>set ds. isFinite (diameter d) \<Longrightarrow>
   map diameter ds = map Fin (map (\<lambda>d. the_real (diameter d)) ds)"
proof (induction ds)
  case Nil
  show ?case by simp
next
  case (Cons d ds)
  then obtain a where "diameter d = Fin a" by (cases "diameter d") simp_all
  with Cons show ?case by simp
qed

lemma finite_points_map:
  "\<forall>p\<in>set ps. isFinite (pupilDiameter p) \<Longrightarrow>
   map pupilDiameter ps = map Fin (map (\<lambda>p. the_real (pupilDiameter p)) ps)"
proof (induction ps)
  case Nil
  show ?case by simp
next
  case (Cons p ps)
  then obtain a where "pupilDiameter p = Fin a" by (cases "pupilDiameter p") simp_all
  with Cons show ?case by simp
qed

lemma ceil_half_eq: "ceil_half n = (n + 1) div 2"
  unfolding ceil_half_def by linarith

section \<open>Statistics engine\<close>

text \<open>
  Claim C3. For every list of samples and requested eye whose diameters are
  finite numbers, \<open>calculateEyeStats\<close> filters to that eye and returns the
  zero-filled statistics when nothing is left, and otherwise the arithmetic
  mean, the square root of the population variance (division by \<open>N\<close>), and the
  least and greatest diameter.
\<close>

theorem calculateEyeStats_spec:
  assumes fin: "\<forall>d\<in>set data. eye d = e \<longrightarrow> isFinite (diameter d)"
  shows "calculateEyeStats data e =
           stats_spec (map (\<lambda>d. the_real (diameter d)) (filter (\<lambda>d. eye d = e) data))"
proof -
  define ds where "ds = filter (\<lambda>d. eye d = e) data"
  define xs where "xs = map (\<lambda>d. the_real (diameter d)) ds"
  have "\<forall>d\<in>set ds. isFinite (diameter d)" using fin by (simp add: ds_def)
  then have eyeData: "map diameter ds = map Fin xs"
    unfolding xs_def by (rule finite_diameters_map)
  have len: "length xs = length ds" by (simp add: xs_def)
  show ?thesis
  proof (cases "xs = []")
    case True
    then have "ds = []" by (simp add: xs_def)
    then show ?thesis
      by (simp add: calculateEyeStats_def stats_spec_def ds_def [symmetric])
  next
    case False
    then have "ds \<noteq> []" by (auto simp: xs_def)
    then show ?thesis
      using False population_variance_nonneg [of xs]
      by (simp add: calculateEyeStats_def stats_spec_def ds_def [symmetric] eyeData len [symmetric]
          xs_def [symmetric] Let_def mean_Fin variance_Fin Math_min_Fin Math_max_Fin not_less)
  qed
qed

text \<open>Same-eye diameters 2, 2, 4, 4 (and one sample of the other eye) give mean
  3 and standard deviation 1; a sample set with right-eye entries only gives
  the zero-filled statistics for the left eye.\<close>

theorem calculateEyeStats_spec_witness:
  "calculateEyeStats
     [\<lparr>frame = 0, eye = left_eye, diameter = Fin 2\<rparr>, \<lparr>frame = 1, eye = left_eye, diameter = Fin 2\<rparr>,
      \<lparr>frame = 0, eye = right_eye, diameter = Fin 9\<rparr>,
      \<lparr>frame = 2, eye = left_eye, diameter = Fin 4\<rparr>, \<lparr>frame = 3, eye = left_eye, diameter = Fin 4\<rparr>]
     left_eye
   = \<lparr>mean = Fin 3, std = Fin 1, min_val = Fin 2, max_val = Fin 4\<rparr> \<and>
   calculateEyeStats [\<lparr>frame = 0, eye = right_eye, diameter = Fin 9\<rparr>] left_eye
   = \<lparr>mean = Fin 0, std = Fin 0, min_val = Fin 0, max_val = Fin 0\<rparr>"
  using calculateEyeStats_spec [of
     "[\<lparr>frame = 0, eye = left_eye, diameter = Fin 2\<rparr>, \<lparr>frame = 1, eye = left_eye, diameter = Fin 2\<rparr>,
      \<lparr>frame = 0, eye = right_eye, diameter = Fin 9\<rparr>,
      \<lparr>frame = 2, eye = left_eye, diameter = Fin 4\<rparr>, \<lparr>frame = 3, eye = left_eye, diameter = Fin 4\<rparr>]"
     left_eye]
    calculateEyeStats_spec [of "[\<lparr>frame = 0, eye = right_eye, diameter = Fin 9\<rparr>]" left_eye]
  by (simp add: stats_spec_def arithmetic_mean_def population_variance_def)

section \<open>Fatigue classifier\<close>

text \<open>
  The threshold cascade of \<open>determineFatigueLevel\<close>, on the average that the
  function itself accumulates (every statistics object it is given counts):
  \<open>high\<close> exactly below 2.2, \<open>low\<close> exactly above 2.6, \<open>moderate\<close> exactly in
  between.
\<close>

lemma determineFatigueLevel_cascade:
  assumes "leftStats \<noteq> None \<or> rightStats \<noteq> None"
    and "avgPupilSize_of leftStats rightStats = Fin avg"
  shows "(determineFatigueLevel leftStats rightStats = high \<longleftrightarrow> avg < 2.2) \<and>
         (determineFatigueLevel leftStats rightStats = low \<longleftrightarrow> avg > 2.6) \<and>
         (determineFatigueLevel leftStats rightStats = moderate \<longleftrightarrow> 2.2 \<le> avg \<and> avg \<le> 2.6)"
  using assms by (auto simp: determineFatigueLevel_def jgt_def)

text \<open>
  When every statistics object that is present has a positive mean, the average
  of the function is the eligible average and the function is the classifier
  of the specification.
\<close>

lemma determineFatigueLevel_all_eligible:
  assumes "\<forall>s. leftStats = Some s \<longrightarrow> jgt (mean s) (Fin 0)"
    and "\<forall>s. rightStats = Some s \<longrightarrow> jgt (mean s) (Fin 0)"
  shows "determineFatigueLevel leftStats rightStats = classify_spec leftStats rightStats"
  using assms
  by (cases leftStats; cases rightStats)
     (simp_all add: determineFatigueLevel_def classify_spec_def eligibleAverage_def eligibleMeans_def
        avgPupilSize_of_def reduce_sum_def)

text \<open>
  Claim C4 (the code departs from it). The claim is about the eligible average.
  \<open>determineFatigueLevel\<close> has no test of \<^verbatim>\<open>mean > 0\<close>: it also counts the
  zero-filled statistics of an eye without samples, which is what
  \<open>processAndSaveAnalysis\<close> hands it. On zero-filled left statistics and a right
  mean of 3 the eligible average is 3, above 2.6, and the classifier of the
  specification answers \<open>low\<close>; the function averages to 1.5 and answers
  \<open>high\<close>. On a right mean of 5 the eligible average is 5 (\<open>low\<close>) and the
  function averages to 2.5 and answers \<open>moderate\<close>. On a single eye with a
  positive mean the boundary values behave as claimed: 2.2 and 2.6 give
  \<open>moderate\<close>, 2.19 gives \<open>high\<close>, 2.61 gives \<open>low\<close>.
\<close>

theorem determineFatigueLevel_ignores_eligibility:
  "eligibleAverage (Some (stats_with_mean 0)) (Some (stats_with_mean 3)) = Some (Fin 3) \<and>
   jgt (Fin 3) (Fin 2.6) \<and>
   classify_spec (Some (stats_with_mean 0)) (Some (stats_with_mean 3)) = low \<and>
   avgPupilSize_of (Some (stats_with_mean 0)) (Some (stats_with_mean 3)) = Fin 1.5 \<and>
   determineFatigueLevel (Some (stats_with_mean 0)) (Some (stats_with_mean 3)) = high \<and>
   eligibleAverage (Some (stats_with_mean 0)) (Some (stats_with_mean 5)) = Some (Fin 5) \<and>
   classify_spec (Some (stats_with_mean 0)) (Some (stats_with_mean 5)) = low \<and>
   determineFatigueLevel (Some (stats_with_mean 0)) (Some (stats_with_mean 5)) = moderate \<and>
   determineFatigueLevel (Some (stats_with_mean 2.2)) None = moderate \<and>
   determineFatigueLevel None (Some (stats_with_mean 2.6)) = moderate \<and>
   determineFatigueLevel (Some (stats_with_mean 2.19)) None = high \<and>
   determineFatigueLevel (Some (stats_with_mean 2.61)) (Some (stats_with_mean 2.61)) = low"
  by (simp add: determineFatigueLevel_def classify_spec_def eligibleAverage_def eligibleMeans_def
      avgPupilSize_of_def reduce_sum_def stats_with_mean_def jdiv_Fin jgt_def)

section \<open>Trend analyzer\<close>

text \<open>
  Claim C7. \<open>generateConclusions\<close> answers \<open>insufficient\<close> on fewer than two
  points. On a series of finite diameters its trend is the one the
  specification words: the first half is the \<open>\<lceil>n / 2\<rceil>\<close> earliest points, the
  second half the rest, \<open>delta\<close> is the second mean minus the first, the
  variability is the population standard deviation of the whole series, and
  the first matching rule among \<open>delta < -0.1\<close> (declining), \<open>delta > 0.1\<close>
  (improving), \<open>variability > 0.15\<close> (variable) wins, \<open>stable\<close> otherwise.
\<close>

theorem generateConclusions_trend:
  "(length data < 2 \<longrightarrow> trend (generateConclusions data) = insufficient) \<and>
   ((\<forall>p\<in>set data. isFinite (pupilDiameter p)) \<longrightarrow>
      trend (generateConclusions data) = trend_spec (map (\<lambda>p. the_real (pupilDiameter p)) data))"
proof (intro conjI impI)
  assume "length data < 2"
  then show "trend (generateConclusions data) = insufficient"
    by (simp add: generateConclusions_def)
next
  assume fin: "\<forall>p\<in>set data. isFinite (pupilDiameter p)"
  define xs where "xs = map (\<lambda>p. the_real (pupilDiameter p)) data"
  define ys where "ys = map pupilDiameter data"
  define k where "k = (length xs + 1) div 2"
  have ys: "ys = map Fin xs"
    unfolding xs_def ys_def using fin by (rule finite_points_map)
  have len: "length data = length xs" by (simp add: xs_def)
  show "trend (generateConclusions data) = trend_spec (map (\<lambda>p. the_real (pupilDiameter p)) data)"
  proof (cases "length xs < 2")
    case True
    then show ?thesis
      by (simp add: generateConclusions_def trend_spec_def len xs_def [symmetric])
  next
    case False
    then have k1: "take k xs \<noteq> []" and k2: "drop k xs \<noteq> []" and ne: "xs \<noteq> []"
      by (auto simp: k_def)
    have fh: "take (ceil_half (length ys)) ys = map Fin (take k xs)"
      by (simp add: ys ceil_half_eq k_def take_map)
    have sh: "drop (ceil_half (length ys)) ys = map Fin (drop k xs)"
      by (simp add: ys ceil_half_eq k_def drop_map)
    note m1 = mean_of_Fin [OF fh k1] and m2 = mean_of_Fin [OF sh k2] and m3 = std_of_Fin [OF ys ne]
    have "\<not> length data < 2" using False len by simp
    then show ?thesis
      unfolding generateConclusions_def Let_def ys_def [symmetric] m1 m2 m3
      using False by (simp add: trend_spec_def xs_def [symmetric] k_def Let_def jgt_def jsub_def)
  qed
qed

text \<open>Four points with first-half mean 2.0 and second-half mean 2.5 are
  \<open>improving\<close>; a single point is \<open>insufficient\<close>.\<close>

theorem generateConclusions_trend_witness:
  "trend (generateConclusions
     [\<lparr>time = ''09:00'', pupilDiameter = Fin 2.0, dp_reactionTime = None\<rparr>,
      \<lparr>time = ''11:00'', pupilDiameter = Fin 2.0, dp_reactionTime = None\<rparr>,
      \<lparr>time = ''14:00'', pupilDiameter = Fin 2.5, dp_reactionTime = None\<rparr>,
      \<lparr>time = ''17:00'', pupilDiameter = Fin 2.5, dp_reactionTime = None\<rparr>]) = improving \<and>
   trend (generateConclusions [\<lparr>time = ''09:00'', pupilDiameter = NaN, dp_reactionTime = None\<rparr>])
     = insufficient"
  using generateConclusions_trend [of
     "[\<lparr>time = ''09:00'', pupilDiameter = Fin 2.0, dp_reactionTime = None\<rparr>,
      \<lparr>time = ''11:00'', pupilDiameter = Fin 2.0, dp_reactionTime = None\<rparr>,
      \<lparr>time = ''14:00'', pupilDiameter = Fin 2.5, dp_reactionTime = None\<rparr>,
      \<lparr>time = ''17:00'', pupilDiameter = Fin 2.5, dp_reactionTime = None\<rparr>]"]
    generateConclusions_trend [of "[\<lparr>time = ''09:00'', pupilDiameter = NaN, dp_reactionTime = None\<rparr>]"]
  by (simp add: trend_spec_def arithmetic_mean_def)

section \<open>Strings and their parsing\<close>

lemmas parser_defs =
  parseResultData_def parseLine_def parseRow_def parseInt_def parseFloat_def trim_def
  trimStart_def isWhiteSpace_def startsWith_def isDigit_def radixDigit_def digitsValue_def
  pow10_def exponentPart_def normalizeEye_def initialState_def

lemma str_split_nosep: "sep \<notin> set s \<Longrightarrow> str_split s sep = [s]"
  by (induction s) auto

lemma str_split_append: "sep \<notin> set a \<Longrightarrow> str_split (a @ sep # b) sep = a # str_split b sep"
  by (induction a) auto

lemma str_split_join_lines:
  "\<forall>l\<in>set ls. CHR 0x0A \<notin> set l \<Longrightarrow>
   str_split (join_lines ls) (CHR 0x0A) = (if ls = [] then [[]] else ls)"
proof (induction ls rule: join_lines.induct)
  case 1
  show ?case by simp
next
  case (2 l)
  then show ?case by (simp add: str_split_nosep)
next
  case (3 l v va)
  then show ?case by (simp add: str_split_append)
qed

lemma dropWhile_hd: "s \<noteq> [] \<Longrightarrow> \<not> P (hd s) \<Longrightarrow> dropWhile P s = s"
  by (cases s) simp_all

lemma trimStart_id: "s \<noteq> [] \<Longrightarrow> \<not> isWhiteSpace (hd s) \<Longrightarrow> trimStart s = s"
  by (simp add: trimStart_def dropWhile_hd)

lemma trim_id: "s \<noteq> [] \<Longrightarrow> \<not> isWhiteSpace (hd s) \<Longrightarrow> \<not> isWhiteSpace (last s) \<Longrightarrow> trim s = s"
  by (simp add: trim_def dropWhile_hd hd_rev)

lemma trim_Nil: "trim [] = []"
  by (simp add: trim_def)

lemma startsWith_subset: "startsWith s sub \<Longrightarrow> set sub \<subseteq> set s"
proof -
  assume "startsWith s sub"
  then have "sub = take (length sub) s" by (simp add: startsWith_def)
  then have "set sub = set (take (length sub) s)" by simp
  then show ?thesis using set_take_subset [of "length sub" s] by simp
qed

lemma str_includes_subset: "str_includes s sub \<Longrightarrow> set sub \<subseteq> set s"
proof (induction s)
  case Nil
  then show ?case by simp
next
  case (Cons c s)
  from Cons.prems have "startsWith (c # s) sub \<or> str_includes s sub" by simp
  then show ?case
  proof
    assume "startsWith (c # s) sub"
    then show ?thesis by (rule startsWith_subset)
  next
    assume "str_includes s sub"
    then have "set sub \<subseteq> set s" by (rule Cons.IH)
    then show ?thesis by auto
  qed
qed

lemma str_includes_char: "c \<in> set s \<Longrightarrow> str_includes s [c]"
  by (induction s) (auto simp: startsWith_def)

lemma isDigit_cases:
  "isDigit c \<longleftrightarrow> c = CHR ''0'' \<or> c = CHR ''1'' \<or> c = CHR ''2'' \<or> c = CHR ''3'' \<or> c = CHR ''4'' \<or>
     c = CHR ''5'' \<or> c = CHR ''6'' \<or> c = CHR ''7'' \<or> c = CHR ''8'' \<or> c = CHR ''9''"
  by (simp add: isDigit_def)

lemma radixDigit_10: "isDigit c \<Longrightarrow> radixDigit 10 c = Some (of_char c - 48)"
  unfolding isDigit_cases by (elim disjE) (simp_all add: radixDigit_def)

lemma radixDigit_10_iff: "radixDigit 10 c \<noteq> None \<longleftrightarrow> isDigit c"
proof
  assume "isDigit c"
  then show "radixDigit 10 c \<noteq> None" by (simp add: radixDigit_10)
next
  assume "radixDigit 10 c \<noteq> None"
  then show "isDigit c"
    by (simp add: radixDigit_def isDigit_def split: if_splits)
qed

lemma foldl_digits:
  "list_all isDigit s \<Longrightarrow>
   foldl (\<lambda>a c. a * 10 + (case radixDigit 10 c of None \<Rightarrow> 0 | Some d \<Rightarrow> d)) a s
     = a * 10 ^ length s + decimalValue s"
  by (induction s arbitrary: a) (simp_all add: radixDigit_10 algebra_simps)

lemma digitsValue_decimal: "list_all isDigit s \<Longrightarrow> digitsValue 10 s = decimalValue s"
  by (simp add: digitsValue_def foldl_digits)

lemma decimalValue_append:
  "decimalValue (a @ b) = decimalValue a * 10 ^ length b + decimalValue b"
  by (induction a) (simp_all add: algebra_simps power_add)

lemma isDigit_not_ws: "isDigit c \<Longrightarrow> \<not> isWhiteSpace c"
  unfolding isDigit_cases by (elim disjE) (simp_all add: isWhiteSpace_def)

lemma digits_hd: "s \<noteq> [] \<Longrightarrow> list_all isDigit s \<Longrightarrow> isDigit (hd s)"
  by (cases s) simp_all

lemma digits_last: "s \<noteq> [] \<Longrightarrow> list_all isDigit s \<Longrightarrow> isDigit (last s)"
  by (simp add: list_all_iff)

lemma digits_notin: "list_all isDigit s \<Longrightarrow> \<not> isDigit c \<Longrightarrow> c \<notin> set s"
  unfolding list_all_iff by blast

lemma takeWhile_digits: "list_all isDigit s \<Longrightarrow> takeWhile isDigit s = s"
  by (simp add: list_all_iff)

lemma takeWhile_digits_dot: "list_all isDigit s \<Longrightarrow> takeWhile isDigit (s @ CHR ''.'' # t) = s"
  by (simp add: list_all_iff takeWhile_append2 isDigit_def)

lemma dropWhile_digits: "list_all isDigit s \<Longrightarrow> dropWhile isDigit s = []"
  by (simp add: list_all_iff)

lemma dropWhile_digits_dot: "list_all isDigit s \<Longrightarrow> dropWhile isDigit (s @ CHR ''.'' # t) = CHR ''.'' # t"
  by (simp add: list_all_iff dropWhile_append2 isDigit_def)

lemma parseInt_digits:
  assumes "s \<noteq> []" "list_all isDigit s"
  shows "parseInt s = Some (int (decimalValue s))"
proof -
  have hd: "isDigit (hd s)" using assms by (rule digits_hd)
  then have ts: "trimStart s = s" using assms(1) by (simp add: trimStart_id isDigit_not_ws)
  have sign: "hd s \<noteq> CHR ''-''" "hd s \<noteq> CHR ''+''" using hd by (auto simp: isDigit_def)
  have "CHR ''x'' \<notin> set s" "CHR ''X'' \<notin> set s"
    using assms(2) by (simp_all add: digits_notin isDigit_def)
  then have nohex: "\<not> startsWith s ''0x''" "\<not> startsWith s ''0X''"
    by (auto dest: startsWith_subset)
  have "\<forall>c\<in>set s. radixDigit 10 c \<noteq> None"
  proof
    fix c assume "c \<in> set s"
    then have "isDigit c" using assms(2) by (simp add: list_all_iff)
    then show "radixDigit 10 c \<noteq> None" by (simp only: radixDigit_10_iff)
  qed
  then have tw: "takeWhile (\<lambda>c. radixDigit 10 c \<noteq> None) s = s"
    by (rule iffD2 [OF takeWhile_eq_all_conv])
  then have tw': "takeWhile (\<lambda>c. \<exists>y. radixDigit 10 c = Some y) s = s" by simp
  show ?thesis
    using assms by (simp add: parseInt_def ts sign nohex tw' digitsValue_decimal)
qed

lemma exponentPart_Nil: "exponentPart [] = 0"
  by (simp add: exponentPart_def)

lemma parseFloat_decimal:
  assumes "i \<noteq> []" "list_all isDigit i" "list_all isDigit f"
  shows "parseFloat (i @ (if f = [] then [] else ''.'' @ f))
           = Fin (real (decimalValue i) + real (decimalValue f) / 10 ^ length f)"
proof -
  let ?s = "i @ (if f = [] then [] else ''.'' @ f)"
  have hd: "isDigit (hd ?s)" using assms(1,2) by (simp add: digits_hd)
  have ne: "?s \<noteq> []" using assms(1) by simp
  have ts: "trimStart ?s = ?s" using ne hd by (simp only: trimStart_id isDigit_not_ws not_False_eq_True)
  have sign: "hd ?s \<noteq> CHR ''-''" "hd ?s \<noteq> CHR ''+''" using hd by (auto simp: isDigit_def)
  have "hd ?s \<noteq> CHR ''I''" using hd by (auto simp: isDigit_def)
  then have noinf: "\<not> startsWith ?s ''Infinity''"
    using ne by (cases ?s) (auto simp: startsWith_def)
  show ?thesis
  proof (cases "f = []")
    case True
    then show ?thesis
      using assms ts sign noinf
      by (simp add: parseFloat_def takeWhile_digits dropWhile_digits exponentPart_Nil pow10_def
          digitsValue_decimal Let_def)
  next
    case False
    have v: "real (decimalValue (i @ f)) * pow10 (- int (length f))
               = real (decimalValue i) + real (decimalValue f) / 10 ^ length f"
      by (simp add: decimalValue_append pow10_def field_simps)
    from False show ?thesis
      using assms ts sign noinf v
      by (simp add: parseFloat_def takeWhile_digits takeWhile_digits_dot dropWhile_digits
          dropWhile_digits_dot exponentPart_Nil digitsValue_decimal Let_def)
  qed
qed

section \<open>The parser on well-formed rows\<close>

lemma eyeLabels_cases:
  "e \<in> set eyeLabels \<longleftrightarrow> e = ''left_eye'' \<or> e = ''right_eye'' \<or> e = ''left'' \<or> e = ''Left'' \<or>
     e = ''right'' \<or> e = ''Right''"
  by (simp add: eyeLabels_def)

lemma trim_labels:
  "trim ''left_eye'' = ''left_eye''" "trim ''right_eye'' = ''right_eye''" "trim ''left'' = ''left''"
  "trim ''Left'' = ''Left''" "trim ''right'' = ''right''" "trim ''Right'' = ''Right''"
  by (simp_all add: trim_def isWhiteSpace_def)

lemma eyeLabel_norm:
  assumes "e \<in> set eyeLabels"
  shows "normalizeEye (trim e) = (if e \<in> {''left_eye'', ''left'', ''Left''} then ''left_eye'' else ''right_eye'')"
  using assms unfolding eyeLabels_cases
  by (elim disjE) (simp_all add: normalizeEye_def trim_labels)

lemma eyeLabel_chars:
  assumes "e \<in> set eyeLabels"
  shows "CHR '','' \<notin> set e" "CHR ''P'' \<notin> set e" "CHR 0x0A \<notin> set e"
  using assms unfolding eyeLabels_cases by (elim disjE; simp)+

lemma digits_chars:
  assumes "list_all isDigit s"
  shows "CHR '','' \<notin> set s" "CHR ''P'' \<notin> set s" "CHR 0x0A \<notin> set s" "CHR ''.'' \<notin> set s"
  using assms by (simp_all add: digits_notin isDigit_def)

lemma rowLine_split:
  assumes "wellFormedRow r"
  shows "str_split (rowLine r) (CHR '','')
           = [frameField r, eyeField r, diameterInt r @ (if diameterFrac r = [] then [] else ''.'' @ diameterFrac r)]"
proof -
  have "CHR '','' \<notin> set (diameterInt r @ (if diameterFrac r = [] then [] else ''.'' @ diameterFrac r))"
    using assms by (simp add: wellFormedRow_def digits_chars)
  then show ?thesis
    using assms
    by (simp add: rowLine_def wellFormedRow_def str_split_append str_split_nosep digits_chars eyeLabel_chars
        del: append_assoc)
qed

lemma parseRow_rowLine:
  assumes "wellFormedRow r"
  shows "parseRow (rowLine r) = Some (rowSample r)"
proof -
  have e: "normalizeEye (trim (eyeField r))
             = (if eyeField r \<in> {''left_eye'', ''left'', ''Left''} then ''left_eye'' else ''right_eye'')"
    using assms by (simp add: wellFormedRow_def eyeLabel_norm)
  have f: "parseInt (frameField r) = Some (int (decimalValue (frameField r)))"
    using assms by (simp add: wellFormedRow_def parseInt_digits)
  have d: "parseFloat (diameterInt r @ (if diameterFrac r = [] then [] else ''.'' @ diameterFrac r))
             = Fin (real (decimalValue (diameterInt r)) +
                    real (decimalValue (diameterFrac r)) / 10 ^ length (diameterFrac r))"
    by (rule parseFloat_decimal) (use assms in \<open>simp_all add: wellFormedRow_def\<close>)
  show ?thesis
    unfolding parseRow_def rowLine_split [OF assms] Let_def
    by (simp add: e f d rowSample_def)
qed

lemma rowLine_facts:
  assumes "wellFormedRow r"
  shows "trim (rowLine r) = rowLine r"
    and "\<not> str_includes (rowLine r) ''Processed''"
    and "rowLine r \<noteq> ''--- CSV Data ---''"
    and "rowLine r \<noteq> ''Frame,Eye_Type,Diameter_mm''"
    and "str_includes (rowLine r) '',''"
    and "CHR 0x0A \<notin> set (rowLine r)"
    and "rowLine r \<noteq> []"
proof -
  have ne: "rowLine r \<noteq> []" using assms by (simp add: rowLine_def wellFormedRow_def)
  have hd: "isDigit (hd (rowLine r))"
    using assms by (simp add: rowLine_def wellFormedRow_def digits_hd)
  have last: "isDigit (last (rowLine r))"
    using assms by (simp add: rowLine_def wellFormedRow_def digits_last)
  show "trim (rowLine r) = rowLine r"
    using ne hd last by (simp add: trim_id isDigit_not_ws)
  have "CHR ''P'' \<notin> set (rowLine r)"
    using assms by (simp add: rowLine_def wellFormedRow_def digits_chars eyeLabel_chars)
  then show "\<not> str_includes (rowLine r) ''Processed''"
    by (auto dest: str_includes_subset)
  show "rowLine r \<noteq> ''--- CSV Data ---''" using hd by (auto simp: isDigit_def)
  show "rowLine r \<noteq> ''Frame,Eye_Type,Diameter_mm''" using hd by (auto simp: isDigit_def)
  show "str_includes (rowLine r) '',''" by (rule str_includes_char) (simp add: rowLine_def)
  show "CHR 0x0A \<notin> set (rowLine r)"
    using assms by (simp add: rowLine_def wellFormedRow_def digits_chars eyeLabel_chars)
  show "rowLine r \<noteq> []" by (rule ne)
qed

lemma parseLine_rowLine:
  assumes "wellFormedRow r" and "inSummarySection st \<longrightarrow> inCSVSection st"
  shows "parseLine st (rowLine r) = st\<lparr>st_pupilData := st_pupilData st @ [rowSample r]\<rparr>"
  using assms(2)
  by (auto simp: parseLine_def Let_def rowLine_facts [OF assms(1)] parseRow_rowLine [OF assms(1)])

lemma foldl_parseLine_rows:
  assumes "\<forall>r\<in>set rows. wellFormedRow r" and "inSummarySection st \<longrightarrow> inCSVSection st"
  shows "foldl parseLine st (map rowLine rows)
           = st\<lparr>st_pupilData := st_pupilData st @ map rowSample rows\<rparr>"
  using assms
proof (induction rows arbitrary: st)
  case Nil
  show ?case by simp
next
  case (Cons r rows)
  have "parseLine st (rowLine r) = st\<lparr>st_pupilData := st_pupilData st @ [rowSample r]\<rparr>"
    using Cons.prems by (simp add: parseLine_rowLine)
  then show ?case
    using Cons.prems Cons.IH [of "st\<lparr>st_pupilData := st_pupilData st @ [rowSample r]\<rparr>"]
    by simp
qed

lemma filter_nonblank_rows:
  assumes "\<forall>r\<in>set rows. wellFormedRow r"
  shows "filter (\<lambda>line. trim line \<noteq> []) (map rowLine rows) = map rowLine rows"
  using assms by (induction rows) (simp_all add: rowLine_facts)

lemma parseResultData_rows:
  assumes "\<forall>r\<in>set rows. wellFormedRow r"
  shows "parseResultData (join_lines (map rowLine rows)) = (map rowSample rows, [])"
proof -
  have nl: "\<forall>l\<in>set (map rowLine rows). CHR 0x0A \<notin> set l"
    using assms by (auto simp: rowLine_facts)
  have lines: "filter (\<lambda>line. trim line \<noteq> []) (str_split (join_lines (map rowLine rows)) (CHR 0x0A))
                 = map rowLine rows"
    using filter_nonblank_rows [OF assms]
    by (simp add: str_split_join_lines [OF nl] trim_Nil)
  show ?thesis
    unfolding parseResultData_def lines Let_def
    using foldl_parseLine_rows [OF assms, of initialState]
    by (simp add: initialState_def trim_Nil)
qed

text \<open>
  Claim C5. For every report that consists of \<open>N\<close> well-formed
  \<^verbatim>\<open>frame,eye,diameter\<close> lines and nothing else, the parser yields exactly the
  \<open>N\<close> samples of the lines, in line order, with the eye label normalised to
  one of the two recognised values (\<^verbatim>\<open>left\<close> and \<^verbatim>\<open>Left\<close> to \<open>left_eye\<close>,
  \<^verbatim>\<open>right\<close> and \<^verbatim>\<open>Right\<close> to \<open>right_eye\<close>), and an empty summary.
\<close>

theorem parse_wellformed_rows:
  assumes "\<forall>r\<in>set rows. wellFormedRow r"
  shows "parseResultData (join_lines (map rowLine rows)) = (map rowSample rows, [])"
  using assms by (rule parseResultData_rows)

text \<open>Three lines with the labels \<^verbatim>\<open>Left\<close>, \<^verbatim>\<open>right_eye\<close> and \<^verbatim>\<open>right\<close>\<close>

theorem parse_wellformed_rows_witness:
  "parseResultData (join_lines [''12,Left,2.35'', ''7,right_eye,3'', ''8,right,0.5''])
     = ([\<lparr>frame = 12, eye = left_eye, diameter = Fin 2.35\<rparr>,
         \<lparr>frame = 7, eye = right_eye, diameter = Fin 3\<rparr>,
         \<lparr>frame = 8, eye = right_eye, diameter = Fin 0.5\<rparr>], [])"
  using parse_wellformed_rows [of
      "[\<lparr>frameField = ''12'', eyeField = ''Left'', diameterInt = ''2'', diameterFrac = ''35''\<rparr>,
        \<lparr>frameField = ''7'', eyeField = ''right_eye'', diameterInt = ''3'', diameterFrac = ''''\<rparr>,
        \<lparr>frameField = ''8'', eyeField = ''right'', diameterInt = ''0'', diameterFrac = ''5''\<rparr>]"]
  by (simp add: wellFormedRow_def rowLine_def rowSample_def isDigit_def eyeLabels_def)

section \<open>Row checks\<close>

lemma parseRow_SomeD:
  assumes "parseRow t = Some d"
  shows "3 \<le> length (str_split t (CHR '','')) \<and>
         parseInt (str_split t (CHR '','') ! 0) = Some (frame d) \<and>
         parseFloat (str_split t (CHR '','') ! 2) = diameter d \<and>
         \<not> isNaN (diameter d) \<and>
         normalizeEye (trim (str_split t (CHR '','') ! 1)) = eyeName (eye d)"
proof -
  let ?parts = "str_split t (CHR '','')"
  from assms have len: "3 \<le> length ?parts"
    by (simp add: parseRow_def Let_def split: if_splits)
  from assms len obtain f where f: "parseInt (?parts ! 0) = Some f"
    by (simp add: parseRow_def Let_def split: option.splits)
  from assms len f have ok: "\<not> isNaN (parseFloat (?parts ! 2))"
      "normalizeEye (trim (?parts ! 1)) = ''left_eye'' \<or> normalizeEye (trim (?parts ! 1)) = ''right_eye''"
    by (simp_all add: parseRow_def Let_def split: if_splits)
  from assms len f ok have d: "d = \<lparr>frame = f,
        eye = (if normalizeEye (trim (?parts ! 1)) = ''left_eye'' then left_eye else right_eye),
        diameter = parseFloat (?parts ! 2)\<rparr>"
    by (simp add: parseRow_def Let_def split: if_splits)
  show ?thesis
    using len f ok by (auto simp: d eyeName_def)
qed

lemma parseRow_NoneI:
  assumes "length (str_split t (CHR '','')) < 3 \<or>
           parseInt (str_split t (CHR '','') ! 0) = None \<or>
           isNaN (parseFloat (str_split t (CHR '','') ! 2)) \<or>
           normalizeEye (trim (str_split t (CHR '','') ! 1)) \<notin> {''left_eye'', ''right_eye''}"
  shows "parseRow t = None"
  using assms by (elim disjE) (simp_all add: parseRow_def Let_def split: option.splits)

lemma parseLine_summaryStart:
  assumes "str_includes (trim l) ''Processed'' \<and> str_includes (trim l) ''frames''"
  shows "parseLine st l = st\<lparr>inSummarySection := True, st_summary := st_summary st @ trim l @ [CHR 0x0A]\<rparr>"
  unfolding parseLine_def Let_def by (simp only: assms if_True simp_thms)

lemma parseLine_csvStart:
  assumes "\<not> (str_includes (trim l) ''Processed'' \<and> str_includes (trim l) ''frames'')"
    and "trim l = ''--- CSV Data ---''"
  shows "parseLine st l = st\<lparr>inCSVSection := True\<rparr>"
  unfolding parseLine_def Let_def
  by (simp only: assms(1) if_False) (simp only: assms(2) if_True refl)

lemma parseLine_header:
  assumes "\<not> (str_includes (trim l) ''Processed'' \<and> str_includes (trim l) ''frames'')"
    and "trim l \<noteq> ''--- CSV Data ---''" and "trim l = ''Frame,Eye_Type,Diameter_mm''"
  shows "parseLine st l = st"
  unfolding parseLine_def Let_def
  by (simp only: assms(1,2) if_False) (simp only: assms(3) if_True refl)

lemma parseLine_summaryLine:
  assumes "\<not> (str_includes (trim l) ''Processed'' \<and> str_includes (trim l) ''frames'')"
    and "trim l \<noteq> ''--- CSV Data ---''" and "trim l \<noteq> ''Frame,Eye_Type,Diameter_mm''"
    and "inSummarySection st \<and> \<not> inCSVSection st"
  shows "parseLine st l =
           (if str_includes (trim l) ''Eye:'' \<or> str_includes (trim l) ''Mean:'' \<or>
               str_includes (trim l) ''Std:'' \<or> str_includes (trim l) ''Min:'' \<or>
               str_includes (trim l) ''Max:''
            then st\<lparr>st_summary := st_summary st @ trim l @ [CHR 0x0A]\<rparr> else st)"
  unfolding parseLine_def Let_def by (simp only: assms if_True if_False simp_thms)

lemma parseLine_dataLine:
  assumes "\<not> (str_includes (trim l) ''Processed'' \<and> str_includes (trim l) ''frames'')"
    and "trim l \<noteq> ''--- CSV Data ---''" and "trim l \<noteq> ''Frame,Eye_Type,Diameter_mm''"
    and "\<not> (inSummarySection st \<and> \<not> inCSVSection st)"
  shows "parseLine st l =
           (if str_includes (trim l) '','' then
              (case parseRow (trim l) of
                 None \<Rightarrow> st
               | Some d \<Rightarrow> st\<lparr>st_pupilData := st_pupilData st @ [d]\<rparr>)
            else st)"
  unfolding parseLine_def Let_def by (simp only: assms if_True if_False simp_thms)

lemma parseLine_cases [case_names summaryStart csvStart header summaryLine dataLine]:
  obtains
    "str_includes (trim l) ''Processed'' \<and> str_includes (trim l) ''frames''"
  | "\<not> (str_includes (trim l) ''Processed'' \<and> str_includes (trim l) ''frames'')"
    "trim l = ''--- CSV Data ---''"
  | "\<not> (str_includes (trim l) ''Processed'' \<and> str_includes (trim l) ''frames'')"
    "trim l \<noteq> ''--- CSV Data ---''" "trim l = ''Frame,Eye_Type,Diameter_mm''"
  | "\<not> (str_includes (trim l) ''Processed'' \<and> str_includes (trim l) ''frames'')"
    "trim l \<noteq> ''--- CSV Data ---''" "trim l \<noteq> ''Frame,Eye_Type,Diameter_mm''"
    "inSummarySection st \<and> \<not> inCSVSection st"
  | "\<not> (str_includes (trim l) ''Processed'' \<and> str_includes (trim l) ''frames'')"
    "trim l \<noteq> ''--- CSV Data ---''" "trim l \<noteq> ''Frame,Eye_Type,Diameter_mm''"
    "\<not> (inSummarySection st \<and> \<not> inCSVSection st)"
  by blast

lemma parseLine_samples:
  "st_pupilData (parseLine st l) = st_pupilData st \<or>
   (\<exists>d. parseRow (trim l) = Some d \<and> st_pupilData (parseLine st l) = st_pupilData st @ [d])"
proof (cases rule: parseLine_cases [where l = l and st = st])
  case summaryStart
  then have "parseLine st l = st\<lparr>inSummarySection := True, st_summary := st_summary st @ trim l @ [CHR 0x0A]\<rparr>"
    by (rule parseLine_summaryStart)
  then show ?thesis by simp
next
  case csvStart
  then have "parseLine st l = st\<lparr>inCSVSection := True\<rparr>" by (rule parseLine_csvStart)
  then show ?thesis by simp
next
  case header
  then have "parseLine st l = st" by (rule parseLine_header)
  then show ?thesis by simp
next
  case summaryLine
  note eq = parseLine_summaryLine [OF summaryLine]
  show ?thesis by (simp add: eq)
next
  case dataLine
  note eq = parseLine_dataLine [OF dataLine]
  show ?thesis by (simp add: eq split: option.splits)
qed

lemma foldl_parseLine_samples:
  "d \<in> set (st_pupilData (foldl parseLine st ls)) \<Longrightarrow>
   d \<in> set (st_pupilData st) \<or> (\<exists>l\<in>set ls. parseRow (trim l) = Some d)"
proof (induction ls arbitrary: st)
  case Nil
  then show ?case by simp
next
  case (Cons l ls)
  from Cons.IH [of "parseLine st l"] Cons.prems
  have "d \<in> set (st_pupilData (parseLine st l)) \<or> (\<exists>l\<in>set ls. parseRow (trim l) = Some d)"
    by simp
  then show ?case
    using parseLine_samples [of st l] by auto
qed

lemma parseLine_sameSamples:
  assumes "sameSamples a b"
  shows "sameSamples (parseLine a l) (parseLine b l)"
proof (cases rule: parseLine_cases [where l = l and st = a])
  case summaryStart
  show ?thesis
    using assms by (simp add: parseLine_summaryStart [OF summaryStart] sameSamples_def)
next
  case csvStart
  show ?thesis
    using assms by (simp add: parseLine_csvStart [OF csvStart] sameSamples_def)
next
  case header
  show ?thesis
    using assms by (simp add: parseLine_header [OF header])
next
  case summaryLine
  from summaryLine(4) assms have b: "inSummarySection b \<and> \<not> inCSVSection b"
    by (simp add: sameSamples_def)
  show ?thesis
    using assms
    by (simp add: parseLine_summaryLine [OF summaryLine]
        parseLine_summaryLine [OF summaryLine(1,2,3) b] sameSamples_def)
next
  case dataLine
  from dataLine(4) assms have b: "\<not> (inSummarySection b \<and> \<not> inCSVSection b)"
    by (simp add: sameSamples_def)
  show ?thesis
    using assms
    by (simp add: parseLine_dataLine [OF dataLine] parseLine_dataLine [OF dataLine(1,2,3) b]
        sameSamples_def split: option.splits)
qed

lemma foldl_sameSamples:
  "sameSamples a b \<Longrightarrow> sameSamples (foldl parseLine a ls) (foldl parseLine b ls)"
  by (induction ls arbitrary: a b) (simp_all add: parseLine_sameSamples)

lemma rejected_sameSamples:
  assumes "rejectedLine bad"
  shows "sameSamples (parseLine st bad) st"
proof -
  have none: "parseRow (trim bad) = None"
    using assms by (intro parseRow_NoneI) (simp add: rejectedLine_def Let_def)
  have a: "\<not> (str_includes (trim bad) ''Processed'' \<and> str_includes (trim bad) ''frames'')"
    and b: "trim bad \<noteq> ''--- CSV Data ---''"
    using assms by (simp_all add: rejectedLine_def Let_def)
  show ?thesis
  proof (cases rule: parseLine_cases [where l = bad and st = st])
    case summaryStart
    with a show ?thesis by simp
  next
    case csvStart
    with b show ?thesis by simp
  next
    case header
    show ?thesis by (simp add: parseLine_header [OF header] sameSamples_def)
  next
    case summaryLine
    show ?thesis by (simp add: parseLine_summaryLine [OF summaryLine] sameSamples_def)
  next
    case dataLine
    show ?thesis by (simp add: parseLine_dataLine [OF dataLine] none sameSamples_def)
  qed
qed

lemma nonblank_lines_join:
  assumes "\<forall>l\<in>set ls. CHR 0x0A \<notin> set l"
  shows "filter (\<lambda>line. trim line \<noteq> []) (str_split (join_lines ls) (CHR 0x0A))
           = filter (\<lambda>line. trim line \<noteq> []) ls"
  by (simp add: str_split_join_lines [OF assms] trim_Nil)

lemma samples_without_rejected:
  assumes "rejectedLine bad"
  shows "st_pupilData (foldl parseLine st (filter (\<lambda>line. trim line \<noteq> []) (before @ [bad] @ after)))
           = st_pupilData (foldl parseLine st (filter (\<lambda>line. trim line \<noteq> []) (before @ after)))"
proof (cases "trim bad = []")
  case True
  then show ?thesis by simp
next
  case False
  let ?f = "filter (\<lambda>line. trim line \<noteq> [])"
  define s1 where "s1 = foldl parseLine st (?f before)"
  have "sameSamples (parseLine s1 bad) s1"
    by (rule rejected_sameSamples [OF assms])
  then have "sameSamples (foldl parseLine (parseLine s1 bad) (?f after)) (foldl parseLine s1 (?f after))"
    by (rule foldl_sameSamples)
  then show ?thesis
    using False by (simp add: sameSamples_def s1_def)
qed

text \<open>
  Claim C6 as stated fails: the diameter check is \<^verbatim>\<open>!isNaN(diameter)\<close>, and
  \<^verbatim>\<open>parseFloat\<close> reads \<^verbatim>\<open>Infinity\<close>. The row \<^verbatim>\<open>1,left_eye,Infinity\<close> is accepted
  with a diameter that is not finite.
\<close>

theorem infinite_diameter_accepted_counterexample:
  "fst (parseResultData ''1,left_eye,Infinity'') = [\<lparr>frame = 1, eye = left_eye, diameter = PInf\<rparr>] \<and>
   \<not> isFinite PInf"
  by (simp add: parser_defs)

text \<open>
  Claim C6, amended. Every sample of the parse comes from a line of the report
  with at least three comma-separated fields whose frame field \<^verbatim>\<open>parseInt\<close>
  reads as the sample's frame, whose diameter field \<^verbatim>\<open>parseFloat\<close> reads as the
  sample's diameter, which is not NaN (it may be infinite), and whose trimmed
  and normalised eye label is the sample's eye. A line that opens no section
  and fails one of these checks is dropped: the samples parsed from the report
  are those parsed from the report without that line.
\<close>

theorem row_checks:
  "(\<forall>d\<in>set (fst (parseResultData resultText)).
      \<exists>line\<in>set (str_split resultText (CHR 0x0A)).
        3 \<le> length (str_split (trim line) (CHR '','')) \<and>
        parseInt (str_split (trim line) (CHR '','') ! 0) = Some (frame d) \<and>
        parseFloat (str_split (trim line) (CHR '','') ! 2) = diameter d \<and>
        \<not> isNaN (diameter d) \<and>
        normalizeEye (trim (str_split (trim line) (CHR '','') ! 1)) = eyeName (eye d)) \<and>
   (rejectedLine bad \<and> (\<forall>l\<in>set (before @ [bad] @ after). CHR 0x0A \<notin> set l) \<longrightarrow>
      fst (parseResultData (join_lines (before @ [bad] @ after)))
        = fst (parseResultData (join_lines (before @ after))))"
proof (intro conjI ballI impI)
  fix d assume "d \<in> set (fst (parseResultData resultText))"
  then have "d \<in> set (st_pupilData (foldl parseLine initialState
                (filter (\<lambda>line. trim line \<noteq> []) (str_split resultText (CHR 0x0A)))))"
    by (simp add: parseResultData_def Let_def)
  from foldl_parseLine_samples [OF this]
  have "\<exists>l\<in>set (filter (\<lambda>line. trim line \<noteq> []) (str_split resultText (CHR 0x0A))).
               parseRow (trim l) = Some d"
    by (simp add: initialState_def)
  then obtain l where l: "l \<in> set (str_split resultText (CHR 0x0A))" "parseRow (trim l) = Some d"
    by auto
  from parseRow_SomeD [OF l(2)] l(1)
  show "\<exists>line\<in>set (str_split resultText (CHR 0x0A)).
        3 \<le> length (str_split (trim line) (CHR '','')) \<and>
        parseInt (str_split (trim line) (CHR '','') ! 0) = Some (frame d) \<and>
        parseFloat (str_split (trim line) (CHR '','') ! 2) = diameter d \<and>
        \<not> isNaN (diameter d) \<and>
        normalizeEye (trim (str_split (trim line) (CHR '','') ! 1)) = eyeName (eye d)"
    by blast
next
  assume a: "rejectedLine bad \<and> (\<forall>l\<in>set (before @ [bad] @ after). CHR 0x0A \<notin> set l)"
  then have nl1: "\<forall>l\<in>set (before @ [bad] @ after). CHR 0x0A \<notin> set l"
    and nl2: "\<forall>l\<in>set (before @ after). CHR 0x0A \<notin> set l" by auto
  from a have "rejectedLine bad" by simp
  then have "st_pupilData (foldl parseLine initialState
                (filter (\<lambda>line. trim line \<noteq> []) (before @ [bad] @ after)))
           = st_pupilData (foldl parseLine initialState
                (filter (\<lambda>line. trim line \<noteq> []) (before @ after)))"
    by (rule samples_without_rejected)
  then show "fst (parseResultData (join_lines (before @ [bad] @ after)))
          = fst (parseResultData (join_lines (before @ after)))"
    unfolding parseResultData_def Let_def nonblank_lines_join [OF nl1] nonblank_lines_join [OF nl2]
    by (simp only: fst_conv)
qed

lemma rejected_examples:
  "rejectedLine ''abc,left_eye,2.3''" "rejectedLine ''1,top_eye,2.3''" "rejectedLine ''9,left_eye,wide''"
  by (simp_all add: rejectedLine_def parser_defs)

lemma parse_two_rows:
  "parseResultData (join_lines [''1,left_eye,2.1'', ''2,right,2.5''])
     = ([\<lparr>frame = 1, eye = left_eye, diameter = Fin 2.1\<rparr>,
         \<lparr>frame = 2, eye = right_eye, diameter = Fin 2.5\<rparr>], [])"
  using parseResultData_rows [of
      "[\<lparr>frameField = ''1'', eyeField = ''left_eye'', diameterInt = ''2'', diameterFrac = ''1''\<rparr>,
        \<lparr>frameField = ''2'', eyeField = ''right'', diameterInt = ''2'', diameterFrac = ''5''\<rparr>]"]
  by (simp add: wellFormedRow_def rowLine_def rowSample_def isDigit_def eyeLabels_def)

text \<open>The rows \<^verbatim>\<open>abc,left_eye,2.3\<close> and \<^verbatim>\<open>1,top_eye,2.3\<close> are dropped and the
  valid rows around them are parsed.\<close>

theorem row_checks_witness:
  "fst (parseResultData (join_lines [''1,left_eye,2.1'', ''abc,left_eye,2.3'', ''2,right,2.5'']))
     = [\<lparr>frame = 1, eye = left_eye, diameter = Fin 2.1\<rparr>,
        \<lparr>frame = 2, eye = right_eye, diameter = Fin 2.5\<rparr>] \<and>
   fst (parseResultData (join_lines [''1,left_eye,2.1'', ''1,top_eye,2.3'', ''2,right,2.5'']))
     = [\<lparr>frame = 1, eye = left_eye, diameter = Fin 2.1\<rparr>,
        \<lparr>frame = 2, eye = right_eye, diameter = Fin 2.5\<rparr>] \<and>
   (\<exists>line\<in>set (str_split (join_lines [''1,left_eye,2.1'', ''2,right,2.5'']) (CHR 0x0A)).
      parseInt (str_split (trim line) (CHR '','') ! 0) = Some 2 \<and>
      parseFloat (str_split (trim line) (CHR '','') ! 2) = Fin 2.5 \<and>
      normalizeEye (trim (str_split (trim line) (CHR '','') ! 1)) = ''right_eye'')"
  using row_checks [of "join_lines [''1,left_eye,2.1'', ''2,right,2.5'']"
          "''abc,left_eye,2.3''" "[''1,left_eye,2.1'']" "[''2,right,2.5'']"]
        row_checks [of "join_lines [''1,left_eye,2.1'', ''2,right,2.5'']"
          "''1,top_eye,2.3''" "[''1,left_eye,2.1'']" "[''2,right,2.5'']"]
  by (simp add: rejected_examples parse_two_rows eyeName_def del: join_lines.simps str_split.simps)
     blast

section \<open>Integer-prefix parsing of the frame field\<close>

text \<open>
  Claim C10. The frame field is read by \<^verbatim>\<open>parseInt\<close>, which accepts a sign and
  stops at the first character that is not a digit: the row
  \<^verbatim>\<open>-5,left_eye,2.3\<close> is accepted with frame -5 and the row \<^verbatim>\<open>3.7,left_eye,2.3\<close>
  is accepted with frame 3, the truncated prefix of the written field.
\<close>

theorem frame_prefix_parsing:
  "fst (parseResultData ''-5,left_eye,2.3'') = [\<lparr>frame = - 5, eye = left_eye, diameter = Fin 2.3\<rparr>] \<and>
   fst (parseResultData ''3.7,left_eye,2.3'') = [\<lparr>frame = 3, eye = left_eye, diameter = Fin 2.3\<rparr>]"
  by (simp add: parser_defs)

section \<open>Record assembler\<close>

lemma parse_right_eye_3:
  "parseResultData ''0,right_eye,3.0'' = ([\<lparr>frame = 0, eye = right_eye, diameter = Fin 3\<rparr>], [])"
  by (simp add: parser_defs)

lemma parse_rejected_row:
  "parseResultData ''abc,left_eye,2.3'' = ([], [])"
  by (simp add: parser_defs)

text \<open>
  Claim C1 (the code departs from it). In \<open>processAndSaveAnalysis\<close> the
  classifier receives both statistics objects, the zero-filled one of an eye
  without samples included, and it averages over every object it receives. For
  the report \<^verbatim>\<open>0,right_eye,3.0\<close> the left eye has no sample and the right eye
  has mean 3: the assembled level is \<open>high\<close> (average 1.5), whereas the right
  eye alone classifies as \<open>low\<close>, which is also what the classifier of the
  repository's check script answers on the same two objects. With a single
  zero-mean object the classifier answers \<open>high\<close>, not \<open>moderate\<close>.
\<close>

theorem processAndSaveAnalysis_counts_zero_mean_eye:
  "(case fst (processAndSaveAnalysis ''0,right_eye,3.0'' None None None (1 / 2) (0, 0, 0, 0)
               (writeOk 0) (writeOk 1) emptyStore) of
      Inl _ \<Rightarrow> False
    | Inr (d, _) \<Rightarrow>
        fatigueLevel d = high \<and> leftEyeStats d = None \<and>
        rightEyeStats d = Some \<lparr>mean = Fin 3, std = Fin 0, min_val = Fin 3, max_val = Fin 3\<rparr>) \<and>
   determineFatigueLevel None (Some \<lparr>mean = Fin 3, std = Fin 0, min_val = Fin 3, max_val = Fin 3\<rparr>) = low \<and>
   determineFatigueLevel_testScript
     (Some \<lparr>mean = Fin 0, std = Fin 0, min_val = Fin 0, max_val = Fin 0\<rparr>)
     (Some \<lparr>mean = Fin 3, std = Fin 0, min_val = Fin 3, max_val = Fin 3\<rparr>) = low \<and>
   determineFatigueLevel (Some \<lparr>mean = Fin 0, std = Fin 0, min_val = Fin 0, max_val = Fin 0\<rparr>) None = high"
  by (simp add: processAndSaveAnalysis_def parse_right_eye_3 calculateEyeStats_def reduce_sum_def
      jdiv_Fin jsub_def Math_min_def Math_max_def determineFatigueLevel_def
      determineFatigueLevel_testScript_def avgPupilSize_of_def
      jgt_def saveAnalysisResult_def writeOk_def Let_def split: prod.splits sum.splits)

text \<open>
  Claim C8. When the parse of a report yields no sample, both
  \<open>processAndSaveAnalysis\<close> and \<open>processEyeTestResult\<close> return the failure
  \<^verbatim>\<open>No valid pupil data found in results\<close> and leave the store as it was: no
  record is written to either collection.
\<close>

theorem no_valid_data_no_write:
  assumes "fst (parseResultData resultText) = []"
  shows "processAndSaveAnalysis resultText url meta sett r draws env envEyeTest store
           = (Inl ''No valid pupil data found in results'', store) \<and>
         processEyeTestResult resultText url meta tType duration sett draws env store
           = (Inl ''No valid pupil data found in results'', store)"
  using assms
  by (cases "parseResultData resultText"; cases draws)
     (simp add: processAndSaveAnalysis_def processEyeTestResult_def)

theorem no_valid_data_no_write_witness:
  "processAndSaveAnalysis ''abc,left_eye,2.3'' None None None (1 / 2) (0, 0, 0, 0)
     (writeOk 0) (writeOk 1) emptyStore
     = (Inl ''No valid pupil data found in results'', emptyStore) \<and>
   processEyeTestResult ''abc,left_eye,2.3'' None None pupil_analysis (Fin 30) None (0, 0, 0, 0)
     (writeOk 0) emptyStore
     = (Inl ''No valid pupil data found in results'', emptyStore)"
  using no_valid_data_no_write [of "''abc,left_eye,2.3''" None None None "1 / 2" "(0, 0, 0, 0)"
      "writeOk 0" "writeOk 1" emptyStore pupil_analysis "Fin 30"]
  by (simp add: parse_rejected_row)

section \<open>The bundled sample report\<close>

lemma sample_text:
  "sampleResultText = join_lines (map rowLine sampleRowsBefore @ sampleMiddleLines @ map rowLine sampleRowsAfter)"
  unfolding sampleResultText_def
  by (rule arg_cong [where f = join_lines])
     (simp add: sampleRowsBefore_def sampleMiddleLines_def sampleRowsAfter_def rowLine_def)

lemma sample_wellFormed:
  "\<forall>r\<in>set sampleRowsBefore. wellFormedRow r" "\<forall>r\<in>set sampleRowsAfter. wellFormedRow r"
  by (simp_all add: sampleRowsBefore_def sampleRowsAfter_def wellFormedRow_def isDigit_def eyeLabels_def)

lemma sample_diameters:
  "\<forall>r\<in>set (sampleRowsBefore @ sampleRowsAfter).
     diameter (rowSample r) = Fin (the_real (diameter (rowSample r))) \<and>
     2.2 \<le> the_real (diameter (rowSample r)) \<and> the_real (diameter (rowSample r)) \<le> 2.6"
  by (simp add: sampleRowsBefore_def sampleRowsAfter_def rowSample_def)

lemma middle_nonblank:
  "filter (\<lambda>line. trim line \<noteq> []) sampleMiddleLines =
     [''Processed 255 frames'', ''Left Eye:'', ''  Mean: 2.40 mm'', ''  Std: 0.11 mm'',
      ''  Min: 2.20 mm'', ''  Max: 2.71 mm'', ''Right Eye:'', ''  Mean: 2.28 mm'',
      ''  Std: 0.10 mm'', ''  Min: 2.09 mm'', ''  Max: 2.53 mm'', ''--- CSV Data ---'',
      ''Frame,Eye_Type,Diameter_mm'']"
  by (simp add: sampleMiddleLines_def trim_def isWhiteSpace_def)

lemma middle_effect:
  "\<exists>sm. foldl parseLine \<lparr>st_pupilData = ds, st_summary = [], inSummarySection = False, inCSVSection = False\<rparr>
     [''Processed 255 frames'', ''Left Eye:'', ''  Mean: 2.40 mm'', ''  Std: 0.11 mm'',
      ''  Min: 2.20 mm'', ''  Max: 2.71 mm'', ''Right Eye:'', ''  Mean: 2.28 mm'',
      ''  Std: 0.10 mm'', ''  Min: 2.09 mm'', ''  Max: 2.53 mm'', ''--- CSV Data ---'',
      ''Frame,Eye_Type,Diameter_mm'']
    = \<lparr>st_pupilData = ds, st_summary = sm, inSummarySection = True, inCSVSection = True\<rparr>"
  by (simp add: parseLine_def trim_def isWhiteSpace_def startsWith_def Let_def)

lemma middle_no_linefeed: "\<forall>l\<in>set sampleMiddleLines. CHR 0x0A \<notin> set l"
  by (simp add: sampleMiddleLines_def)

lemma sample_samples:
  "fst (parseResultData sampleResultText) = map rowSample (sampleRowsBefore @ sampleRowsAfter)"
proof -
  let ?f = "filter (\<lambda>line. trim line \<noteq> [])"
  let ?lines = "map rowLine sampleRowsBefore @ sampleMiddleLines @ map rowLine sampleRowsAfter"
  have nl: "\<forall>l\<in>set ?lines. CHR 0x0A \<notin> set l"
    using sample_wellFormed middle_no_linefeed by (auto simp: rowLine_facts)
  have lines: "?f (str_split sampleResultText (CHR 0x0A))
                 = map rowLine sampleRowsBefore @ ?f sampleMiddleLines @ map rowLine sampleRowsAfter"
    unfolding sample_text nonblank_lines_join [OF nl]
    by (simp add: filter_nonblank_rows sample_wellFormed)
  have s1: "foldl parseLine initialState (map rowLine sampleRowsBefore)
              = \<lparr>st_pupilData = map rowSample sampleRowsBefore, st_summary = [],
                 inSummarySection = False, inCSVSection = False\<rparr>"
    using foldl_parseLine_rows [OF sample_wellFormed(1), of initialState]
    by (simp add: initialState_def)
  obtain sm where s2: "foldl parseLine \<lparr>st_pupilData = map rowSample sampleRowsBefore, st_summary = [],
                 inSummarySection = False, inCSVSection = False\<rparr> (?f sampleMiddleLines)
       = \<lparr>st_pupilData = map rowSample sampleRowsBefore, st_summary = sm,
          inSummarySection = True, inCSVSection = True\<rparr>"
    unfolding middle_nonblank using middle_effect [of "map rowSample sampleRowsBefore"] by blast
  have s3: "foldl parseLine \<lparr>st_pupilData = map rowSample sampleRowsBefore, st_summary = sm,
          inSummarySection = True, inCSVSection = True\<rparr> (map rowLine sampleRowsAfter)
       = \<lparr>st_pupilData = map rowSample sampleRowsBefore @ map rowSample sampleRowsAfter, st_summary = sm,
          inSummarySection = True, inCSVSection = True\<rparr>"
    using foldl_parseLine_rows [OF sample_wellFormed(2), of "\<lparr>st_pupilData = map rowSample sampleRowsBefore, st_summary = sm,
          inSummarySection = True, inCSVSection = True\<rparr>"]
    by simp
  show ?thesis
    unfolding parseResultData_def Let_def lines foldl_append s1 s2 s3 by simp
qed

lemma arithmetic_mean_bounds:
  assumes "xs \<noteq> []" and "\<forall>x\<in>set xs. lo \<le> x \<and> x \<le> hi"
  shows "lo \<le> arithmetic_mean xs \<and> arithmetic_mean xs \<le> hi"
proof -
  have n: "0 < real (length xs)" using assms(1) by simp
  have "sum_list (map (\<lambda>x. lo) xs) \<le> sum_list xs" "sum_list xs \<le> sum_list (map (\<lambda>x. hi) xs)"
    using assms(2) by (auto intro!: sum_list_mono [where g = "\<lambda>x. x", simplified] sum_list_mono [where f = "\<lambda>x. x", simplified])
  then have "lo * real (length xs) \<le> sum_list xs" "sum_list xs \<le> hi * real (length xs)"
    by (simp_all add: sum_list_triv mult.commute)
  then show ?thesis
    using n by (simp add: arithmetic_mean_def field_simps)
qed

lemma calculateEyeStats_mean:
  assumes "map diameter (filter (\<lambda>d. eye d = e) data) = map Fin xs" and "xs \<noteq> []"
  shows "mean (calculateEyeStats data e) = Fin (arithmetic_mean xs)"
  using assms(2) mean_Fin [OF assms(2)]
  by (simp add: calculateEyeStats_def assms(1) Let_def)

lemma calculateEyeStats_mean_bounds:
  assumes fin: "\<forall>d\<in>set data. diameter d = Fin (the_real (diameter d)) \<and>
                  lo \<le> the_real (diameter d) \<and> the_real (diameter d) \<le> hi"
    and ex: "\<exists>d\<in>set data. eye d = e"
  shows "\<exists>m. mean (calculateEyeStats data e) = Fin m \<and> lo \<le> m \<and> m \<le> hi"
proof -
  define xs where "xs = map (\<lambda>d. the_real (diameter d)) (filter (\<lambda>d. eye d = e) data)"
  have eq: "map diameter (filter (\<lambda>d. eye d = e) data) = map Fin xs"
    using fin by (simp add: xs_def)
  have ne: "xs \<noteq> []" using ex by (auto simp: xs_def filter_empty_conv)
  have "\<forall>x\<in>set xs. lo \<le> x \<and> x \<le> hi" using fin by (auto simp: xs_def)
  then have "lo \<le> arithmetic_mean xs \<and> arithmetic_mean xs \<le> hi"
    using ne by (intro arithmetic_mean_bounds)
  then show ?thesis
    using calculateEyeStats_mean [OF eq ne] by blast
qed

lemma assembled_moderate:
  assumes parse: "parseResultData resultText = (ds, sm)" and ne: "ds \<noteq> []"
    and l: "mean (calculateEyeStats ds left_eye) = Fin ml" "2.2 \<le> ml" "ml \<le> 2.6"
    and r: "mean (calculateEyeStats ds right_eye) = Fin mr" "2.2 \<le> mr" "mr \<le> 2.6"
  shows "\<exists>d saved. fst (processAndSaveAnalysis resultText url meta sett rnd draws (writeOk t) envEyeTest store)
                      = Inr (d, saved) \<and>
           fatigueLevel d = moderate \<and> leftEyeStats d \<noteq> None \<and> rightEyeStats d \<noteq> None \<and>
           pupilData d = ds"
proof -
  have lvl: "determineFatigueLevel (Some (calculateEyeStats ds left_eye)) (Some (calculateEyeStats ds right_eye))
               = moderate"
    using l r by (simp add: determineFatigueLevel_def avgPupilSize_of_def jdiv_Fin jgt_def)
  have pos: "jgt (mean (calculateEyeStats ds left_eye)) (Fin 0)"
            "jgt (mean (calculateEyeStats ds right_eye)) (Fin 0)"
    using l r by (simp_all add: jgt_def)
  show ?thesis
    using ne
    by (simp add: processAndSaveAnalysis_def parse Let_def lvl pos saveAnalysisResult_def writeOk_def
        split: prod.splits sum.splits)
qed

lemma sample_record:
  "\<exists>d saved. fst (loadSampleAnalysisData isoTime rnd draws (writeOk t) envEyeTest store) = Inr (d, saved) \<and>
      fatigueLevel d = moderate \<and> leftEyeStats d \<noteq> None \<and> rightEyeStats d \<noteq> None \<and>
      pupilData d = map rowSample (sampleRowsBefore @ sampleRowsAfter)"
proof -
  let ?ds = "map rowSample (sampleRowsBefore @ sampleRowsAfter)"
  obtain sm where parse: "parseResultData sampleResultText = (?ds, sm)"
    using sample_samples by (cases "parseResultData sampleResultText") simp
  have ne: "?ds \<noteq> []" by (simp add: sampleRowsBefore_def)
  have fin: "\<forall>d\<in>set ?ds. diameter d = Fin (the_real (diameter d)) \<and>
                  2.2 \<le> the_real (diameter d) \<and> the_real (diameter d) \<le> 2.6"
  proof
    fix d assume "d \<in> set ?ds"
    then obtain r where "r \<in> set (sampleRowsBefore @ sampleRowsAfter)" "d = rowSample r"
      by auto
    then show "diameter d = Fin (the_real (diameter d)) \<and>
                  2.2 \<le> the_real (diameter d) \<and> the_real (diameter d) \<le> 2.6"
      using sample_diameters by blast
  qed
  have "rowSample (hd sampleRowsBefore) \<in> set ?ds" "eye (rowSample (hd sampleRowsBefore)) = left_eye"
       "rowSample (last sampleRowsBefore) \<in> set ?ds" "eye (rowSample (last sampleRowsBefore)) = right_eye"
    by (simp_all add: sampleRowsBefore_def rowSample_def)
  then have ex: "\<exists>d\<in>set ?ds. eye d = left_eye" "\<exists>d\<in>set ?ds. eye d = right_eye"
    by blast+
  obtain ml where l: "mean (calculateEyeStats ?ds left_eye) = Fin ml" "2.2 \<le> ml" "ml \<le> 2.6"
    using calculateEyeStats_mean_bounds [OF fin ex(1)] by blast
  obtain mr where r: "mean (calculateEyeStats ?ds right_eye) = Fin mr" "2.2 \<le> mr" "mr \<le> 2.6"
    using calculateEyeStats_mean_bounds [OF fin ex(2)] by blast
  show ?thesis
    unfolding loadSampleAnalysisData_def
    by (rule assembled_moderate [OF parse ne l r])
qed

text \<open>
  Claim C2 as stated fails: the means of both eyes of the sample report lie
  between 2.2 and 2.6, so the level of the assembled record is \<open>moderate\<close>,
  not \<open>high\<close>.
\<close>

theorem sample_report_not_high_counterexample:
  "map_sum id (fatigueLevel \<circ> fst)
     (fst (loadSampleAnalysisData ''2025-01-01T00:00:00.000Z'' (1 / 2) (0, 0, 0, 0) (writeOk 0) (writeOk 1)
            emptyStore)) \<noteq> Inr high"
  using sample_record [of "''2025-01-01T00:00:00.000Z''" "1 / 2" "(0, 0, 0, 0)" 0 "writeOk 1" emptyStore]
  by auto

text \<open>
  Claim C2, amended. For the bundled sample report (14 left-eye and 15
  right-eye rows before the summary block, 6 more left-eye rows after the CSV
  marker), whenever the store write succeeds, the assembled record has level
  \<open>moderate\<close>, has both eye statistics, and holds all 35 samples in line order.
\<close>

theorem sample_report_record:
  "\<exists>d saved. fst (loadSampleAnalysisData isoTime rnd draws (writeOk t) envEyeTest store) = Inr (d, saved) \<and>
      fatigueLevel d = moderate \<and> leftEyeStats d \<noteq> None \<and> rightEyeStats d \<noteq> None \<and>
      pupilData d = map rowSample (sampleRowsBefore @ sampleRowsAfter)"
  by (rule sample_record)


section \<open>Reaction-time estimates\<close>

text \<open>
  Claim C9 as stated fails. In eyeTestService.ts the pupil adjustment is
  guarded by the truthiness of \<^verbatim>\<open>avgPupilSize\<close>: for an average of 0, which is
  below 2.0, nothing is added, and the estimate for \<open>low\<close> with draw 0 is 250,
  below the least value 250 + 50 the claim allows. In analysisService.ts the
  adjustment is linear: at \<open>low\<close>, average 1.0 and draw 1/2 the estimate is
  380, above the greatest value 300 + 50 the claim allows.
\<close>

theorem reactionTime_adjustment_counterexample:
  "jlt (Fin 0) (Fin 2.0) \<and>
   pupilAdjustment_eyeTest (Some (Fin 0)) = 0 \<and>
   generateMockReactionTime_eyeTest low (Some (Fin 0)) 0 = Fin 250 \<and>
   jlt (Fin 1) (Fin 2.0) \<and>
   generateMockReactionTime low (Some (Fin 1)) (1 / 2) = Fin 380"
  by (simp add: generateMockReactionTime_eyeTest_def generateMockReactionTime_def
      baseTime_eyeTest_def pupilAdjustment_eyeTest_def baseReactionTimes_def jsub_def)

text \<open>
  Claim C9, amended. For every fatigue level, every optional average pupil
  size and every draw \<open>0 \<le> r < 1\<close>: the estimate of eyeTestService.ts is the
  rounding of base value plus pupil adjustment, an integer never below 200;
  the base value lies in the range of the level (low 250 to 300, moderate 300
  to 400, high 400 to 550); the adjustment is +50 when the average is non-zero
  and below 2.0, -25 when it is above 3.0, and 0 otherwise (in particular for
  an average of 0 and for an absent one); with these bounds the estimate is at
  least 225. The floor-clamped estimate of analysisService.ts is never below
  200 either, and is an integer whenever the average is absent or finite; for a
  finite non-zero average \<open>a\<close> it is the greater of 200 and the rounding of the
  base constant of the level plus \<open>(3.0 - a) * 50\<close> plus the variation
  \<open>(r - 0.5) * 40\<close>.
\<close>

theorem reactionTime_estimates:
  assumes "0 \<le> r" and "r < 1"
  shows "generateMockReactionTime_eyeTest level avg r
           = Fin (of_int \<lfloor>baseTime_eyeTest level r + pupilAdjustment_eyeTest avg + 1 / 2\<rfloor>) \<and>
         200 \<le> \<lfloor>baseTime_eyeTest level r + pupilAdjustment_eyeTest avg + 1 / 2\<rfloor> \<and>
         (case level of
            low \<Rightarrow> 250 \<le> baseTime_eyeTest level r \<and> baseTime_eyeTest level r \<le> 300
          | moderate \<Rightarrow> 300 \<le> baseTime_eyeTest level r \<and> baseTime_eyeTest level r \<le> 400
          | high \<Rightarrow> 400 \<le> baseTime_eyeTest level r \<and> baseTime_eyeTest level r \<le> 550) \<and>
         pupilAdjustment_eyeTest avg
           = (case avg of
                None \<Rightarrow> 0
              | Some a \<Rightarrow> if a \<noteq> Fin 0 \<and> jlt a (Fin 2.0) then 50
                          else if jgt a (Fin 3.0) then - 25 else 0) \<and>
         \<not> jlt (generateMockReactionTime level avg r) (Fin 200) \<and>
         generateMockReactionTime level avg r \<noteq> NaN \<and>
         ((\<forall>a. avg = Some a \<longrightarrow> isFinite a) \<longrightarrow>
            (\<exists>n. generateMockReactionTime level avg r = Fin (of_int n) \<and> 200 \<le> n)) \<and>
         225 \<le> \<lfloor>baseTime_eyeTest level r + pupilAdjustment_eyeTest avg + 1 / 2\<rfloor> \<and>
         (\<forall>a. avg = Some (Fin a) \<and> a \<noteq> 0 \<longrightarrow>
            generateMockReactionTime level avg r
              = jmax2 (Fin 200)
                  (Math_round (Fin (baseReactionTimes level + (3.0 - a) * 50 + (r - 0.5) * 40))))"
proof (intro conjI)
  show "generateMockReactionTime_eyeTest level avg r
          = Fin (of_int \<lfloor>baseTime_eyeTest level r + pupilAdjustment_eyeTest avg + 1 / 2\<rfloor>)"
    by (simp add: generateMockReactionTime_eyeTest_def)
  have b: "250 \<le> baseTime_eyeTest level r"
    using assms by (cases level) (simp_all add: baseTime_eyeTest_def)
  have a: "- 25 \<le> pupilAdjustment_eyeTest avg"
    by (simp add: pupilAdjustment_eyeTest_def split: option.splits)
  show "200 \<le> \<lfloor>baseTime_eyeTest level r + pupilAdjustment_eyeTest avg + 1 / 2\<rfloor>"
    using a b by linarith
  show "case level of
          low \<Rightarrow> 250 \<le> baseTime_eyeTest level r \<and> baseTime_eyeTest level r \<le> 300
        | moderate \<Rightarrow> 300 \<le> baseTime_eyeTest level r \<and> baseTime_eyeTest level r \<le> 400
        | high \<Rightarrow> 400 \<le> baseTime_eyeTest level r \<and> baseTime_eyeTest level r \<le> 550"
    using assms by (cases level) (simp_all add: baseTime_eyeTest_def)
  show "pupilAdjustment_eyeTest avg
          = (case avg of
               None \<Rightarrow> 0
             | Some a \<Rightarrow> if a \<noteq> Fin 0 \<and> jlt a (Fin 2.0) then 50
                         else if jgt a (Fin 3.0) then - 25 else 0)"
  proof (cases avg)
    case None
    then show ?thesis by (simp add: pupilAdjustment_eyeTest_def)
  next
    case (Some a)
    then show ?thesis by (cases a) (simp_all add: pupilAdjustment_eyeTest_def jgt_def)
  qed
  show "\<not> jlt (generateMockReactionTime level avg r) (Fin 200)"
  proof (cases avg)
    case None
    then show ?thesis by (simp add: generateMockReactionTime_def)
  next
    case (Some a)
    then show ?thesis by (cases a) (simp_all add: generateMockReactionTime_def jsub_def Let_def)
  qed
  show "generateMockReactionTime level avg r \<noteq> NaN"
  proof (cases avg)
    case None
    then show ?thesis by (simp add: generateMockReactionTime_def)
  next
    case (Some a)
    then show ?thesis by (cases a) (simp_all add: generateMockReactionTime_def jsub_def Let_def)
  qed
  show "(\<forall>a. avg = Some a \<longrightarrow> isFinite a) \<longrightarrow>
          (\<exists>n. generateMockReactionTime level avg r = Fin (of_int n) \<and> 200 \<le> n)"
  proof
    assume fin: "\<forall>a. avg = Some a \<longrightarrow> isFinite a"
    have clamp: "\<exists>n. jmax2 (Fin 200) (Math_round (Fin x)) = Fin (of_int n) \<and> 200 \<le> n" for x
    proof (cases "200 < real_of_int \<lfloor>x + 1 / 2\<rfloor>")
      case True
      then have "jmax2 (Fin 200) (Math_round (Fin x)) = Fin (of_int \<lfloor>x + 1 / 2\<rfloor>)" by simp
      moreover from True have "200 \<le> \<lfloor>x + 1 / 2\<rfloor>" by linarith
      ultimately show ?thesis by blast
    next
      case False
      then have "jmax2 (Fin 200) (Math_round (Fin x)) = Fin (of_int 200)" by simp
      then show ?thesis by blast
    qed
    show "\<exists>n. generateMockReactionTime level avg r = Fin (of_int n) \<and> 200 \<le> n"
    proof (cases avg)
      case None
      then show ?thesis
        using clamp [of "baseReactionTimes level + (r - 0.5) * 40"]
        by (simp add: generateMockReactionTime_def)
    next
      case (Some a)
      with fin obtain x where x: "a = Fin x" by (cases a) auto
      show ?thesis
      proof (cases "x = 0")
        case True
        with Some x show ?thesis
          using clamp [of "baseReactionTimes level + (r - 0.5) * 40"]
          by (simp add: generateMockReactionTime_def)
      next
        case False
        with Some x show ?thesis
          using clamp [of "baseReactionTimes level + (3 - x) * 50 + (r - 0.5) * 40"]
          by (simp add: generateMockReactionTime_def jsub_def Let_def)
      qed
    qed
  qed
  show "225 \<le> \<lfloor>baseTime_eyeTest level r + pupilAdjustment_eyeTest avg + 1 / 2\<rfloor>"
    using a b by linarith
  show "\<forall>a. avg = Some (Fin a) \<and> a \<noteq> 0 \<longrightarrow>
          generateMockReactionTime level avg r
            = jmax2 (Fin 200)
                (Math_round (Fin (baseReactionTimes level + (3.0 - a) * 50 + (r - 0.5) * 40)))"
    by (simp add: generateMockReactionTime_def jsub_def Let_def)
qed

text \<open>At \<open>high\<close>, average 1.5 and draw 1/2 both estimates are 525.\<close>

theorem reactionTime_estimates_witness:
  "(0::real) \<le> 1 / 2 \<and> (1 / 2 :: real) < 1 \<and>
   generateMockReactionTime_eyeTest high (Some (Fin 1.5)) (1 / 2) = Fin 525 \<and>
   baseTime_eyeTest high (1 / 2) = 475 \<and>
   pupilAdjustment_eyeTest (Some (Fin 1.5)) = 50 \<and>
   \<not> jlt (generateMockReactionTime high (Some (Fin 1.5)) (1 / 2)) (Fin 200)"
  using reactionTime_estimates [of "1 / 2" high "Some (Fin 1.5)"]
  by (simp add: baseTime_eyeTest_def pupilAdjustment_eyeTest_def)


end
